theory Spec2Isabelle
  imports Complex_Main "HOL-Library.Word"
begin

section \<open>Data model\<close>

text \<open>
  The enums and string unions of \<^verbatim>\<open>types.ts\<close> become datatypes, the interfaces become
  records. JavaScript numbers that carry angles, pixels and progress are modelled as
  \<^typ>\<open>real\<close> (rounding of IEEE doubles is not modelled); counters, scores and
  millisecond timestamps are modelled as \<^typ>\<open>int\<close>.
\<close>

datatype VRMode = NONE | MAGIC_WINDOW | STEREO

datatype VideoFormat =
    MONO_2D | STEREO_SBS | STEREO_TB
  | VR180_SBS | VR180_TB | VR180_MONO
  | VR360_SBS | VR360_TB | VR360_MONO

datatype ControlMode = SENSOR | TOUCH

datatype DragAxis = FREE | HORIZONTAL

datatype Eye = EyeLeft | EyeRight | EyeSingle

datatype View = ViewLibrary | ViewPlayer

text \<open>\<^verbatim>\<open>{ x, y }\<close> of \<^verbatim>\<open>headRotation\<close> and \<^verbatim>\<open>touchRotation\<close>: \<open>x\<close> is the pitch and
  \<open>y\<close> the yaw, both in degrees.\<close>

record Rotation =
  rot_x :: real
  rot_y :: real

text \<open>\<^verbatim>\<open>{ alpha, beta, gamma }\<close> of \<^verbatim>\<open>baseRotation\<close> and \<^verbatim>\<open>lastRawOrientation\<close>.\<close>

record Orientation =
  alpha :: real
  beta :: real
  gamma :: real

text \<open>A \<^verbatim>\<open>DeviceOrientationEvent\<close>: each axis is a number or \<^verbatim>\<open>null\<close>.\<close>

record DeviceOrientationEvent =
  e_alpha :: "real option"
  e_beta :: "real option"
  e_gamma :: "real option"

text \<open>The fields of \<^verbatim>\<open>PlayerConfig\<close> that the modelled handlers read
  (\<^verbatim>\<open>screenType\<close> and \<^verbatim>\<open>profile\<close> only scale and offset the flat screen).\<close>

record PlayerConfig =
  mode :: VRMode
  videoFormat :: VideoFormat
  isGameMode :: bool
  controlMode :: ControlMode
  dragAxis :: DragAxis

record GameStats =
  score :: int
  combo :: int
  maxCombo :: int

record WordDefinition =
  word :: string
  translation :: string
  pronunciation :: string
  wordType :: string
  contextUsage :: "string option"

text \<open>
  The state of the \<^verbatim>\<open>App\<close> component: its \<^verbatim>\<open>useState\<close> cells and \<^verbatim>\<open>useRef\<close> cells that the
  orientation, pointer, click and gaze handlers read or write. \<open>hitObjects\<close> is the set held
  by \<^verbatim>\<open>hitObjectsRef\<close>; \<open>videoPaused\<close> is \<^verbatim>\<open>videoRef.current.paused\<close> (the media element
  is mounted for as long as the player view is shown). The field \<open>wordDefinition\<close> is the
  state cell \<^verbatim>\<open>definition\<close>.
\<close>

record App =
  view :: View
  playerConfig :: PlayerConfig
  gameStats :: GameStats
  hitObjects :: "string set"
  showSettingsOverlay :: bool
  isSeeking :: bool
  lastPinchDist :: "real option"
  isPlaying :: bool
  videoPaused :: bool
  hoveredWord :: "string option"
  dwellProgress :: real
  isTranslating :: bool
  wordDefinition :: "WordDefinition option"
  headRotation :: Rotation
  isCalibrationMode :: bool
  touchRotation :: Rotation
  isDragging :: bool
  lastPointer :: "real \<times> real"
  baseRotation :: "Orientation option"
  lastRawOrientation :: "Orientation option"
  lastHoverTime :: int

section \<open>Orientation fusion and recentering\<close>

text \<open>\<^verbatim>\<open>v || 0\<close> on a number or \<^verbatim>\<open>null\<close>: \<^verbatim>\<open>null\<close> and \<open>0\<close> give \<open>0\<close>, any other
  number gives itself.\<close>

definition orZero :: "real option \<Rightarrow> real" where
  "orZero v = (case v of None \<Rightarrow> 0 | Some r \<Rightarrow> r)"

text \<open>
  \<^verbatim>\<open>handleOrientation\<close>; \<open>isLandscape\<close> is \<^verbatim>\<open>window.innerWidth > window.innerHeight\<close>
  at the time of the event. An event without alpha returns early.
\<close>

definition handleOrientation :: "DeviceOrientationEvent \<Rightarrow> bool \<Rightarrow> App \<Rightarrow> App" where
  "handleOrientation e isLandscape s =
     (case e_alpha e of
        None \<Rightarrow> s
      | Some a \<Rightarrow>
          (let raw = \<lparr>alpha = orZero (e_alpha e), beta = orZero (e_beta e),
                      gamma = orZero (e_gamma e)\<rparr>;
               base = (case baseRotation s of None \<Rightarrow> raw | Some b \<Rightarrow> b);
               yaw0 = orZero (e_alpha e) - alpha base;
               yaw1 = (if yaw0 > 180 then yaw0 - 360 else yaw0);
               yaw2 = (if yaw1 < - 180 then yaw1 + 360 else yaw1);
               pitch0 = (if isLandscape then orZero (e_gamma e) - gamma base
                         else orZero (e_beta e) - beta base);
               pitch1 = max (- 80) (min 80 pitch0)
           in s\<lparr>lastRawOrientation := Some raw, baseRotation := Some base,
                headRotation := \<lparr>rot_x = pitch1, rot_y = yaw2\<rparr>\<rparr>))"

text \<open>The listener is registered only in the player view and in sensor mode.\<close>

definition deviceorientation :: "DeviceOrientationEvent \<Rightarrow> bool \<Rightarrow> App \<Rightarrow> App" where
  "deviceorientation e isLandscape s =
     (if view s \<noteq> ViewPlayer \<or> controlMode (playerConfig s) \<noteq> SENSOR then s
      else handleOrientation e isLandscape s)"

definition confirmRecenter :: "App \<Rightarrow> App" where
  "confirmRecenter s =
     (let s1 = (if controlMode (playerConfig s) = SENSOR \<and> lastRawOrientation s \<noteq> None
                then s\<lparr>baseRotation := lastRawOrientation s\<rparr>
                else if controlMode (playerConfig s) = TOUCH
                then s\<lparr>touchRotation := \<lparr>rot_x = 0, rot_y = 0\<rparr>\<rparr>
                else s)
      in s1\<lparr>isCalibrationMode := False\<rparr>)"

text \<open>\<^verbatim>\<open>activeRotation\<close>, the rotation handed to both eye views.\<close>

definition activeRotation :: "App \<Rightarrow> Rotation" where
  "activeRotation s =
     (if controlMode (playerConfig s) = SENSOR then headRotation s else touchRotation s)"

text \<open>A pointer event: position, the pressed-buttons mask, and whether its target lies
  inside the progress bar (\<^verbatim>\<open>closest('.progress-bar-container')\<close>).\<close>

record PointerEvent =
  clientX :: real
  clientY :: real
  buttons :: nat
  onProgressBar :: bool

text \<open>\<^verbatim>\<open>progressBarRef.current\<close> is set while the overlay controls are rendered, that is
  outside stereo mode.\<close>

definition progressBarMounted :: "App \<Rightarrow> bool" where
  "progressBarMounted s = (mode (playerConfig s) \<noteq> STEREO)"

text \<open>Truthiness of \<^verbatim>\<open>lastPinchDist.current\<close> (a number or \<^verbatim>\<open>null\<close>).\<close>

definition pinchActive :: "App \<Rightarrow> bool" where
  "pinchActive s = (case lastPinchDist s of None \<Rightarrow> False | Some d \<Rightarrow> d \<noteq> 0)"

text \<open>\<^verbatim>\<open>onPointerDown\<close>; seeking writes \<^verbatim>\<open>currentTime\<close> of the media element, which is
  not part of the state modelled here.\<close>

definition onPointerDown :: "PointerEvent \<Rightarrow> App \<Rightarrow> App" where
  "onPointerDown e s =
     (if view s \<noteq> ViewPlayer then s
      else (let s1 = s\<lparr>isDragging := False, lastPointer := (clientX e, clientY e)\<rparr>
            in if onProgressBar e then s1\<lparr>isSeeking := True\<rparr> else s1))"

definition onPointerMove :: "PointerEvent \<Rightarrow> App \<Rightarrow> App" where
  "onPointerMove e s =
     (if view s \<noteq> ViewPlayer then s
      else if isSeeking s \<and> progressBarMounted s then s
      else if pinchActive s then s
      else
        (let deltaX = clientX e - fst (lastPointer s);
             deltaY = clientY e - snd (lastPointer s);
             s1 = (if \<bar>deltaX\<bar> > 5 \<or> \<bar>deltaY\<bar> > 5 then s\<lparr>isDragging := True\<rparr> else s);
             s2 = (if controlMode (playerConfig s) = TOUCH \<and> buttons e > 0 \<and> \<not> isSeeking s
                   then (let sensitivity = 0.2;
                             prev = touchRotation s;
                             newY = rot_y prev + deltaX * sensitivity;
                             newX = (if dragAxis (playerConfig s) = FREE
                                     then max (- 85) (min 85 (rot_x prev + deltaY * sensitivity))
                                     else rot_x prev)
                         in s1\<lparr>touchRotation := \<lparr>rot_x = newX, rot_y = newY\<rparr>\<rparr>)
                   else s1)
         in s2\<lparr>lastPointer := (clientX e, clientY e)\<rparr>))"

text \<open>Pinch bookkeeping of \<^verbatim>\<open>onTouchStart\<close>, \<^verbatim>\<open>onTouchMove\<close> and \<^verbatim>\<open>onTouchEnd\<close>; the
  argument is the distance between two touches, \<open>None\<close> when the event does not carry
  exactly two touches. The zoom factor that \<^verbatim>\<open>onTouchMove\<close> also updates is not modelled.\<close>

definition onTouchStart :: "real option \<Rightarrow> App \<Rightarrow> App" where
  "onTouchStart twoTouchDist s =
     (case twoTouchDist of None \<Rightarrow> s | Some d \<Rightarrow> s\<lparr>lastPinchDist := Some d\<rparr>)"

definition onTouchMove :: "real option \<Rightarrow> App \<Rightarrow> App" where
  "onTouchMove twoTouchDist s =
     (if view s \<noteq> ViewPlayer then s
      else (case twoTouchDist of
              None \<Rightarrow> s
            | Some d \<Rightarrow> if pinchActive s then s\<lparr>lastPinchDist := Some d\<rparr> else s))"

definition onTouchEnd :: "App \<Rightarrow> App" where
  "onTouchEnd s = s\<lparr>lastPinchDist := None\<rparr>"

section \<open>Gaze and click hit-testing\<close>

text \<open>
  What the handlers learn about the element returned by \<^verbatim>\<open>document.elementFromPoint\<close>:
  the results of its three \<^verbatim>\<open>closest\<close> queries. \<open>closestAction\<close> is the \<^verbatim>\<open>data-action\<close>
  value of the nearest \<^verbatim>\<open>[data-action]\<close> ancestor, \<open>closestWord\<close> the \<^verbatim>\<open>data-word\<close> value
  and the optional \<^verbatim>\<open>data-sentence\<close> value of the nearest \<^verbatim>\<open>[data-word]\<close> ancestor, and
  \<open>closestGameNote\<close> the optional \<^verbatim>\<open>data-note-id\<close> value of the nearest
  \<^verbatim>\<open>[data-game-note]\<close> ancestor; \<open>None\<close> where \<^verbatim>\<open>closest\<close> returns \<^verbatim>\<open>null\<close>.
\<close>

record HitElement =
  closestAction :: "string option"
  closestWord :: "(string \<times> string option) option"
  closestGameNote :: "string option option"

record Window =
  innerWidth :: real
  innerHeight :: real
  elementFromPoint :: "real \<Rightarrow> real \<Rightarrow> HitElement option"

text \<open>
  The calls a handler run makes, in the order it makes them: \<open>StartCalibration\<close> is the
  recenter action (\<^verbatim>\<open>setIsCalibrationMode(true)\<close>), \<open>RecenterCommit\<close> is
  \<^verbatim>\<open>confirmRecenter()\<close>, \<open>TogglePlay\<close> is \<^verbatim>\<open>togglePlay()\<close>, \<open>NoteScore id\<close> is the
  \<^verbatim>\<open>setGameStats\<close> update made for the note \<open>id\<close>, \<open>WordLookup word sentence\<close> is
  \<^verbatim>\<open>handleTranslate(word, sentence)\<close>, and \<open>DefinitionClose\<close> is \<^verbatim>\<open>closeDefinition()\<close>.
  Handlers return this list next to the new state.
\<close>

datatype Activation =
    StartCalibration
  | RecenterCommit
  | TogglePlay
  | NoteScore string
  | WordLookup string string
  | DefinitionClose

text \<open>Truthiness of a string that may be \<^verbatim>\<open>null\<close> or \<^verbatim>\<open>undefined\<close>.\<close>

definition truthy :: "string option \<Rightarrow> bool" where
  "truthy v = (case v of None \<Rightarrow> False | Some t \<Rightarrow> t \<noteq> [])"

text \<open>\<^verbatim>\<open>v || ''\<close>.\<close>

definition orEmpty :: "string option \<Rightarrow> string" where
  "orEmpty v = (case v of None \<Rightarrow> [] | Some t \<Rightarrow> t)"

definition DWELL_TIME_MS :: int where
  "DWELL_TIME_MS = 1200"

definition togglePlay :: "App \<Rightarrow> App" where
  "togglePlay s =
     (if videoPaused s then s\<lparr>videoPaused := False, isPlaying := True\<rparr>
      else s\<lparr>videoPaused := True, isPlaying := False\<rparr>)"

text \<open>\<^verbatim>\<open>handleTranslate\<close> up to its \<^verbatim>\<open>await\<close>; \<open>translateResolved\<close> is the continuation that
  runs when \<^verbatim>\<open>translateWord\<close> has produced its result.\<close>

definition handleTranslate :: "string \<Rightarrow> string \<Rightarrow> App \<Rightarrow> App" where
  "handleTranslate wd sentence s = s\<lparr>isTranslating := True, videoPaused := True, isPlaying := False\<rparr>"

definition translateResolved :: "WordDefinition \<Rightarrow> App \<Rightarrow> App" where
  "translateResolved result s = s\<lparr>wordDefinition := Some result, isTranslating := False\<rparr>"

definition closeDefinition :: "int \<Rightarrow> App \<Rightarrow> App" where
  "closeDefinition now s =
     s\<lparr>wordDefinition := None, dwellProgress := 0, hoveredWord := None,
       lastHoverTime := now, videoPaused := False, isPlaying := True\<rparr>"

text \<open>The point both handlers probe: the left eye's centre in stereo mode, the screen
  centre otherwise.\<close>

definition probePoint :: "Window \<Rightarrow> VRMode \<Rightarrow> real \<times> real" where
  "probePoint w m =
     (if m = STEREO then (innerWidth w * 0.25, innerHeight w / 2)
      else (innerWidth w / 2, innerHeight w / 2))"

text \<open>\<^verbatim>\<open>document.elementFromPoint(x, y)\<close> at that point.\<close>

definition probe :: "Window \<Rightarrow> VRMode \<Rightarrow> HitElement option" where
  "probe w m = elementFromPoint w (fst (probePoint w m)) (snd (probePoint w m))"

text \<open>
  \<^verbatim>\<open>handleScreenClick\<close>; \<open>now\<close> is \<^verbatim>\<open>Date.now()\<close>. The result pairs the calls made with
  the new state. Showing and hiding the overlay controls (\<^verbatim>\<open>toggleControls\<close>) is not
  modelled. The handler is a chain of sections that each end in \<^verbatim>\<open>return\<close>; every
  section is a definition of its own here, and \<open>handleScreenClick\<close> chains them in the
  order of the source.
\<close>

text \<open>Nothing under the probe point, or an element that is no target: in stereo mode the
  click toggles playback.\<close>

definition clickEmpty :: "App \<Rightarrow> Activation list \<times> App" where
  "clickEmpty s =
     (if mode (playerConfig s) = STEREO then ([TogglePlay], togglePlay s) else ([], s))"

text \<open>\<^verbatim>\<open>if (actionElement) { ... return; }\<close>\<close>

definition clickAction :: "string \<Rightarrow> App \<Rightarrow> Activation list \<times> App" where
  "clickAction action s =
     (if action = ''recenter'' then ([StartCalibration], s\<lparr>isCalibrationMode := True\<rparr>)
      else if action = ''toggle-play'' then ([TogglePlay], togglePlay s)
      else ([], s))"

text \<open>\<^verbatim>\<open>if (gameNoteElement) { ... return; }\<close>\<close>

definition clickNote :: "string option \<Rightarrow> App \<Rightarrow> Activation list \<times> App" where
  "clickNote noteId s =
     (if truthy noteId \<and> orEmpty noteId \<notin> hitObjects s
      then ([NoteScore (orEmpty noteId)],
            s\<lparr>hitObjects := insert (orEmpty noteId) (hitObjects s),
              gameStats :=
                \<lparr>score = score (gameStats s) + 100 + combo (gameStats s) * 10,
                 combo = combo (gameStats s) + 1,
                 maxCombo = max (maxCombo (gameStats s)) (combo (gameStats s) + 1)\<rparr>\<rparr>)
      else ([], s))"

text \<open>\<^verbatim>\<open>if (wordElement) { ... return; }\<close>\<close>

definition clickWord :: "string \<Rightarrow> string option \<Rightarrow> int \<Rightarrow> App \<Rightarrow> Activation list \<times> App" where
  "clickWord dataWord dataSentence now s =
     (if dataWord = ''close-btn'' then ([DefinitionClose], closeDefinition now s)
      else if \<not> isTranslating s \<and> wordDefinition s = None \<and> \<not> isGameMode (playerConfig s)
      then ([WordLookup dataWord (orEmpty dataSentence)],
            handleTranslate dataWord (orEmpty dataSentence) s)
      else ([], s))"

definition clickElement :: "HitElement \<Rightarrow> int \<Rightarrow> App \<Rightarrow> Activation list \<times> App" where
  "clickElement el now s =
     (case closestAction el of
        Some action \<Rightarrow> clickAction action s
      | None \<Rightarrow>
          (case closestGameNote el of
             Some noteId \<Rightarrow> clickNote noteId s
           | None \<Rightarrow>
               (case closestWord el of
                  Some dw \<Rightarrow> clickWord (fst dw) (snd dw) now s
                | None \<Rightarrow> clickEmpty s)))"

definition handleScreenClick :: "Window \<Rightarrow> int \<Rightarrow> App \<Rightarrow> Activation list \<times> App" where
  "handleScreenClick w now s =
     (if isCalibrationMode s then ([RecenterCommit], confirmRecenter s)
      else (case probe w (mode (playerConfig s)) of
              None \<Rightarrow> clickEmpty s
            | Some el \<Rightarrow> clickElement el now s))"

text \<open>\<^verbatim>\<open>onPointerUp\<close>: a pointer-up that ends a seek, a drag or a pinch is not a click.\<close>

definition onPointerUp :: "Window \<Rightarrow> int \<Rightarrow> App \<Rightarrow> Activation list \<times> App" where
  "onPointerUp w now s =
     (if view s \<noteq> ViewPlayer then ([], s)
      else if isSeeking s then ([], s\<lparr>isSeeking := False\<rparr>)
      else (let r = (if \<not> isDragging s \<and> \<not> pinchActive s then handleScreenClick w now s
                     else ([], s))
            in (fst r, (snd r)\<lparr>isDragging := False\<rparr>)))"

text \<open>
  \<^verbatim>\<open>checkGaze\<close>. Its rhythm-note part runs in game mode only and does not return, so the
  word part runs after it on the same element.
\<close>

definition gazeNote :: "HitElement \<Rightarrow> App \<Rightarrow> Activation list \<times> App" where
  "gazeNote el s =
     (if isGameMode (playerConfig s)
      then (case closestGameNote el of
              Some noteId \<Rightarrow>
                if truthy noteId \<and> orEmpty noteId \<notin> hitObjects s
                then ([NoteScore (orEmpty noteId)],
                      s\<lparr>hitObjects := insert (orEmpty noteId) (hitObjects s),
                        gameStats :=
                          \<lparr>score = score (gameStats s) + 100 + combo (gameStats s) * 10,
                           combo = combo (gameStats s) + 1,
                           maxCombo = max (maxCombo (gameStats s))
                                          (combo (gameStats s) + 1)\<rparr>\<rparr>)
                else ([], s)
            | None \<Rightarrow> ([], s))
      else ([], s))"

text \<open>
  The dwell on a word whose \<^verbatim>\<open>data-word\<close> is the word already hovered, with the timer
  running. On firing, \<^verbatim>\<open>setDwellProgress(progress)\<close> is followed by
  \<^verbatim>\<open>setDwellProgress(0)\<close> in the same handler, so the state ends at \<open>0\<close>.
\<close>

definition gazeDwell :: "string \<Rightarrow> string \<Rightarrow> int \<Rightarrow> App \<Rightarrow> Activation list \<times> App" where
  "gazeDwell dataWord sentence now s =
     (let elapsed = now - lastHoverTime s;
          progress = min 1 (real_of_int elapsed / real_of_int DWELL_TIME_MS)
      in if progress \<ge> 1 \<and> \<not> isTranslating s
            \<and> (wordDefinition s = None \<or> word (the (wordDefinition s)) \<noteq> dataWord)
         then ([WordLookup dataWord sentence],
               (handleTranslate dataWord sentence s)\<lparr>lastHoverTime := 0, dwellProgress := 0\<rparr>)
         else ([], s\<lparr>dwellProgress := progress\<rparr>))"

text \<open>\<^verbatim>\<open>if (wordEl) { ... }\<close>: an element with an empty \<^verbatim>\<open>data-word\<close> changes nothing.\<close>

definition gazeWordHit :: "string \<Rightarrow> string option \<Rightarrow> int \<Rightarrow> App \<Rightarrow> Activation list \<times> App" where
  "gazeWordHit dataWord dataSentence now s =
     (if dataWord \<noteq> [] then
        (if hoveredWord s \<noteq> Some dataWord
         then ([], s\<lparr>hoveredWord := Some dataWord, lastHoverTime := now, dwellProgress := 0\<rparr>)
         else if lastHoverTime s > 0 then gazeDwell dataWord (orEmpty dataSentence) now s
         else ([], s))
      else ([], s))"

text \<open>The \<^verbatim>\<open>else\<close> branch: the element is no word.\<close>

definition gazeWordMiss :: "App \<Rightarrow> Activation list \<times> App" where
  "gazeWordMiss s =
     (if truthy (hoveredWord s)
      then ([], s\<lparr>hoveredWord := None, dwellProgress := 0, lastHoverTime := 0\<rparr>)
      else ([], s))"

definition gazeWord :: "HitElement \<Rightarrow> int \<Rightarrow> App \<Rightarrow> Activation list \<times> App" where
  "gazeWord el now s =
     (case closestWord el of
        Some dw \<Rightarrow> gazeWordHit (fst dw) (snd dw) now s
      | None \<Rightarrow> gazeWordMiss s)"

definition checkGaze :: "Window \<Rightarrow> int \<Rightarrow> App \<Rightarrow> Activation list \<times> App" where
  "checkGaze w now s =
     (case probe w (mode (playerConfig s)) of
        None \<Rightarrow> ([], s\<lparr>hoveredWord := None, dwellProgress := 0, lastHoverTime := 0\<rparr>)
      | Some el \<Rightarrow> (fst (gazeNote el s) @ fst (gazeWord el now (snd (gazeNote el s))),
                    snd (gazeWord el now (snd (gazeNote el s)))))"

text \<open>The interval that runs \<^verbatim>\<open>checkGaze\<close> exists only in the player view, outside
  calibration mode and while the settings overlay is closed.\<close>

definition gazeTick :: "Window \<Rightarrow> int \<Rightarrow> App \<Rightarrow> Activation list \<times> App" where
  "gazeTick w now s =
     (if view s \<noteq> ViewPlayer \<or> isCalibrationMode s \<or> showSettingsOverlay s then ([], s)
      else checkGaze w now s)"

section \<open>Session start, settings and the event loop\<close>

text \<open>
  \<^verbatim>\<open>handleStartPlay\<close>: the state cells it resets; \<open>itemConfigured\<close> is
  \<^verbatim>\<open>item.isConfigured\<close>. It leaves \<^verbatim>\<open>hoveredWord\<close>, \<^verbatim>\<open>dwellProgress\<close>, \<^verbatim>\<open>isTranslating\<close>,
  \<^verbatim>\<open>lastHoverTimeRef\<close> and \<^verbatim>\<open>lastRawOrientation\<close> as they are. The player view mounts a new
  media element, which starts paused.
\<close>

definition handleEnterVR :: "App \<Rightarrow> App" where
  "handleEnterVR s = s\<lparr>playerConfig := (playerConfig s)\<lparr>mode := STEREO, controlMode := SENSOR\<rparr>\<rparr>"

definition handleExitVRMode :: "App \<Rightarrow> App" where
  "handleExitVRMode s = s\<lparr>playerConfig := (playerConfig s)\<lparr>mode := MAGIC_WINDOW\<rparr>\<rparr>"

definition handleStartPlay :: "bool \<Rightarrow> PlayerConfig \<Rightarrow> App \<Rightarrow> App" where
  "handleStartPlay itemConfigured config s =
     (let s1 = s\<lparr>playerConfig := config, wordDefinition := None, isPlaying := False,
                 videoPaused := True, baseRotation := None,
                 headRotation := \<lparr>rot_x = 0, rot_y = 0\<rparr>,
                 touchRotation := \<lparr>rot_x = 0, rot_y = 0\<rparr>,
                 isCalibrationMode := False,
                 gameStats := \<lparr>score = 0, combo = 0, maxCombo = 0\<rparr>,
                 hitObjects := {}, isSeeking := False,
                 showSettingsOverlay := (\<not> itemConfigured), view := ViewPlayer\<rparr>
      in if mode config = STEREO then handleEnterVR s1 else s1)"

definition handleExit :: "App \<Rightarrow> App" where
  "handleExit s = s\<lparr>videoPaused := True, view := ViewLibrary\<rparr>"

text \<open>\<^verbatim>\<open>handleKeyDown\<close>; the arrow keys seek the media element and change nothing here.\<close>

definition handleKeyDown :: "string \<Rightarrow> App \<Rightarrow> Activation list \<times> App" where
  "handleKeyDown key s =
     (if view s \<noteq> ViewPlayer then ([], s)
      else if key = '' '' \<or> key = ''Enter'' then ([TogglePlay], togglePlay s)
      else if key = ''r'' \<or> key = ''R''
      then ([], s\<lparr>isCalibrationMode := (\<not> isCalibrationMode s)\<rparr>)
      else if key = ''Escape'' then ([], handleExit s)
      else ([], s))"

text \<open>
  The events of one playback session: sensor samples, pointer and touch input, the gaze
  interval, the completion of a lookup, keys, and the buttons of the overlay (control
  mode, drag axis, settings overlay, enter and leave stereo mode, close the definition).
\<close>

datatype Event =
    EvOrientation DeviceOrientationEvent bool
  | EvPointerDown PointerEvent
  | EvPointerMove PointerEvent
  | EvPointerUp Window int
  | EvTouchStart "real option"
  | EvTouchMove "real option"
  | EvTouchEnd
  | EvGazeTick Window int
  | EvTranslateResolved WordDefinition
  | EvKeyDown string
  | EvSetControlMode ControlMode
  | EvSetDragAxis DragAxis
  | EvSettingsOverlay bool
  | EvEnterVR
  | EvExitVR
  | EvCloseDefinition int

fun step :: "Event \<Rightarrow> App \<Rightarrow> Activation list \<times> App" where
  "step (EvOrientation e isLandscape) s = ([], deviceorientation e isLandscape s)"
| "step (EvPointerDown e) s = ([], onPointerDown e s)"
| "step (EvPointerMove e) s = ([], onPointerMove e s)"
| "step (EvPointerUp w now) s = onPointerUp w now s"
| "step (EvTouchStart d) s = ([], onTouchStart d s)"
| "step (EvTouchMove d) s = ([], onTouchMove d s)"
| "step EvTouchEnd s = ([], onTouchEnd s)"
| "step (EvGazeTick w now) s = gazeTick w now s"
| "step (EvTranslateResolved result) s = ([], translateResolved result s)"
| "step (EvKeyDown key) s = handleKeyDown key s"
| "step (EvSetControlMode cm) s = ([], s\<lparr>playerConfig := (playerConfig s)\<lparr>controlMode := cm\<rparr>\<rparr>)"
| "step (EvSetDragAxis ax) s = ([], s\<lparr>playerConfig := (playerConfig s)\<lparr>dragAxis := ax\<rparr>\<rparr>)"
| "step (EvSettingsOverlay b) s = ([], s\<lparr>showSettingsOverlay := b\<rparr>)"
| "step EvEnterVR s = ([], handleEnterVR s)"
| "step EvExitVR s = ([], handleExitVRMode s)"
| "step (EvCloseDefinition now) s = ([DefinitionClose], closeDefinition now s)"

fun run :: "Event list \<Rightarrow> App \<Rightarrow> Activation list \<times> App" where
  "run [] s = ([], s)"
| "run (e # es) s = (fst (step e s) @ fst (run es (snd (step e s))), snd (run es (snd (step e s))))"

text \<open>The state of the component before the first session (the initial values of its
  state and ref cells).\<close>

definition initialApp :: App where
  "initialApp =
     \<lparr>view = ViewLibrary,
      playerConfig = \<lparr>mode = MAGIC_WINDOW, videoFormat = MONO_2D, isGameMode = False,
                      controlMode = SENSOR, dragAxis = FREE\<rparr>,
      gameStats = \<lparr>score = 0, combo = 0, maxCombo = 0\<rparr>,
      hitObjects = {}, showSettingsOverlay = False, isSeeking = False,
      lastPinchDist = None, isPlaying = False, videoPaused = True,
      hoveredWord = None, dwellProgress = 0, isTranslating = False,
      wordDefinition = None, headRotation = \<lparr>rot_x = 0, rot_y = 0\<rparr>,
      isCalibrationMode = False, touchRotation = \<lparr>rot_x = 0, rot_y = 0\<rparr>,
      isDragging = False, lastPointer = (0, 0), baseRotation = None,
      lastRawOrientation = None, lastHoverTime = 0\<rparr>"

section \<open>Stereo texture mapping of the panoramic renderer\<close>

text \<open>The string value of each \<^verbatim>\<open>VideoFormat\<close> member, and the two string tests the
  renderers apply to it.\<close>

fun formatName :: "VideoFormat \<Rightarrow> string" where
  "formatName MONO_2D = ''MONO_2D''"
| "formatName STEREO_SBS = ''STEREO_SBS''"
| "formatName STEREO_TB = ''STEREO_TB''"
| "formatName VR180_SBS = ''VR180_SBS''"
| "formatName VR180_TB = ''VR180_TB''"
| "formatName VR180_MONO = ''VR180_MONO''"
| "formatName VR360_SBS = ''VR360_SBS''"
| "formatName VR360_TB = ''VR360_TB''"
| "formatName VR360_MONO = ''VR360_MONO''"

fun startsWith :: "string \<Rightarrow> string \<Rightarrow> bool" where
  "startsWith t [] = True"
| "startsWith [] (c # cs) = False"
| "startsWith (d # ds) (c # cs) = (d = c \<and> startsWith ds cs)"

fun includesStr :: "string \<Rightarrow> string \<Rightarrow> bool" where
  "includesStr [] sub = (sub = [])"
| "includesStr (d # ds) sub = (startsWith (d # ds) sub \<or> includesStr ds sub)"

text \<open>\<^verbatim>\<open>texture.repeat\<close> and \<^verbatim>\<open>texture.offset\<close> as \<^verbatim>\<open>VRVideoRenderer\<close> sets them.\<close>

record TextureTransform =
  uScale :: real
  vScale :: real
  uOffset :: real
  vOffset :: real

definition textureTransform :: "VideoFormat \<Rightarrow> Eye \<Rightarrow> TextureTransform" where
  "textureTransform fmt eye =
     (let isSBS = includesStr (formatName fmt) ''SBS'';
          isTB = includesStr (formatName fmt) ''TB'';
          isStereo = (isSBS \<or> isTB);
          t0 = \<lparr>uScale = 1, vScale = 1, uOffset = 0, vOffset = 0\<rparr>
      in if isStereo then
           (if eye = EyeLeft then
              (let t1 = (if isSBS then t0\<lparr>uScale := 0.5, uOffset := 0\<rparr> else t0)
               in if isTB then t1\<lparr>vScale := 0.5, vOffset := 0.5\<rparr> else t1)
            else if eye = EyeRight then
              (let t1 = (if isSBS then t0\<lparr>uScale := 0.5, uOffset := 0.5\<rparr> else t0)
               in if isTB then t1\<lparr>vScale := 0.5, vOffset := 0\<rparr> else t1)
            else
              (let t1 = (if isSBS then t0\<lparr>uScale := 0.5, uOffset := 0\<rparr> else t0)
               in if isTB then t1\<lparr>vScale := 0.5, vOffset := 0.5\<rparr> else t1))
         else t0)"

text \<open>
  The texture coordinate sampled for a geometry coordinate is
  \<open>coordinate * repeat + offset\<close>; the geometry's coordinates run over \<open>[0, 1]\<close>, so the
  window of the texture an eye sees runs from the image of \<open>0\<close> to the image of \<open>1\<close>.
\<close>

definition uWindow :: "TextureTransform \<Rightarrow> real \<times> real" where
  "uWindow t = (0 * uScale t + uOffset t, 1 * uScale t + uOffset t)"

definition vWindow :: "TextureTransform \<Rightarrow> real \<times> real" where
  "vWindow t = (0 * vScale t + vOffset t, 1 * vScale t + vOffset t)"

text \<open>\<^verbatim>\<open>isVRVideo\<close> of \<^verbatim>\<open>EyeView\<close>: the panoramic renderer is mounted for these formats.\<close>

definition isVRVideo :: "VideoFormat \<Rightarrow> bool" where
  "isVRVideo fmt = startsWith (formatName fmt) ''VR''"

text \<open>The stereo split a format tag declares, following the data model of the
  specification (\<open>StereoLayout\<close>): none, side-by-side or top-bottom.\<close>

datatype StereoSplit = SplitNone | SideBySide | TopBottom

fun stereoSplit_spec :: "VideoFormat \<Rightarrow> StereoSplit" where
  "stereoSplit_spec MONO_2D = SplitNone"
| "stereoSplit_spec STEREO_SBS = SideBySide"
| "stereoSplit_spec STEREO_TB = TopBottom"
| "stereoSplit_spec VR180_SBS = SideBySide"
| "stereoSplit_spec VR180_TB = TopBottom"
| "stereoSplit_spec VR180_MONO = SplitNone"
| "stereoSplit_spec VR360_SBS = SideBySide"
| "stereoSplit_spec VR360_TB = TopBottom"
| "stereoSplit_spec VR360_MONO = SplitNone"

text \<open>The per-eye windows as the specification words them: the pair of the U window and
  the V window.\<close>

fun stereoWindow_spec :: "StereoSplit \<Rightarrow> Eye \<Rightarrow> (real \<times> real) \<times> (real \<times> real)" where
  "stereoWindow_spec SideBySide EyeLeft = ((0, 0.5), (0, 1))"
| "stereoWindow_spec SideBySide EyeRight = ((0.5, 1), (0, 1))"
| "stereoWindow_spec TopBottom EyeLeft = ((0, 1), (0.5, 1))"
| "stereoWindow_spec TopBottom EyeRight = ((0, 1), (0, 0.5))"
| "stereoWindow_spec split eye = ((0, 1), (0, 1))"

text \<open>A single eye reuses the left-eye mapping; a mono source uses the full texture for
  every eye.\<close>

definition eyeWindow_spec :: "StereoSplit \<Rightarrow> Eye \<Rightarrow> (real \<times> real) \<times> (real \<times> real)" where
  "eyeWindow_spec split eye =
     (if split = SplitNone then ((0, 1), (0, 1))
      else stereoWindow_spec split (if eye = EyeSingle then EyeLeft else eye))"

section \<open>Beat-synchronised note spawner\<close>

definition SPEED :: real where "SPEED = 25.0"
definition SPAWN_Z :: real where "SPAWN_Z = - 1000"
definition DESPAWN_Z :: real where "DESPAWN_Z = 100"
definition BEAT_THRESHOLD :: real where "BEAT_THRESHOLD = 240"
definition COOLDOWN_FRAMES :: int where "COOLDOWN_FRAMES = 15"

record GameNote =
  note_id :: string
  lane :: int
  spawnTime :: int
  note_z :: real
  isHit :: bool

text \<open>The refs of \<^verbatim>\<open>RhythmGameRenderer\<close>; \<open>audioReady\<close> says that both \<^verbatim>\<open>analyserRef\<close>
  and \<^verbatim>\<open>dataArrayRef\<close> are set, which is the case when the audio context was created
  without an exception.\<close>

record Spawner =
  notesRef :: "GameNote list"
  lastBeatFrame :: int
  frameCount :: int
  audioReady :: bool

text \<open>
  What one animation frame reads from outside: the \<^verbatim>\<open>isPlaying\<close> prop, the bytes that
  \<^verbatim>\<open>getByteFrequencyData\<close> wrote, the value of the \<^verbatim>\<open>Math.random()\<close> call that picks the
  lane, the id string built from \<^verbatim>\<open>Date.now()\<close> and a second \<^verbatim>\<open>Math.random()\<close>,
  \<^verbatim>\<open>Date.now()\<close> itself, and the shared set of consumed note ids.
\<close>

record FrameInput =
  playing :: bool
  freqData :: "8 word list"
  randomLane :: real
  freshId :: string
  nowMs :: int
  consumedIds :: "string set"

text \<open>The loop \<^verbatim>\<open>for (i = 0; i < 5; i++) bassSum += data[i]\<close>, with \<open>k\<close> iterations left.
  Reading past the end of the array gives \<^verbatim>\<open>undefined\<close> and turns the sum into \<^verbatim>\<open>NaN\<close>,
  which is \<open>None\<close> here.\<close>

fun bassLoop :: "8 word list \<Rightarrow> nat \<Rightarrow> nat \<Rightarrow> real option \<Rightarrow> real option" where
  "bassLoop d i 0 acc = acc"
| "bassLoop d i (Suc k) acc =
     bassLoop d (Suc i) k
       (case acc of
          None \<Rightarrow> None
        | Some a \<Rightarrow> if i < length d then Some (a + real (unat (d ! i))) else None)"

definition bassAvg :: "8 word list \<Rightarrow> real option" where
  "bassAvg d = (case bassLoop d 0 5 (Some 0) of None \<Rightarrow> None | Some bassSum \<Rightarrow> Some (bassSum / 5))"

text \<open>The spawn condition; a comparison with \<^verbatim>\<open>NaN\<close> is false.\<close>

definition beatDetected :: "FrameInput \<Rightarrow> Spawner \<Rightarrow> bool" where
  "beatDetected inp sp =
     (case bassAvg (freqData inp) of
        None \<Rightarrow> False
      | Some avg \<Rightarrow> avg > BEAT_THRESHOLD \<and> frameCount sp - lastBeatFrame sp > COOLDOWN_FRAMES)"

text \<open>Step 1 of \<^verbatim>\<open>updateGame\<close>, after the frame counter was incremented.\<close>

definition spawnStage :: "FrameInput \<Rightarrow> Spawner \<Rightarrow> Spawner" where
  "spawnStage inp sp =
     (if audioReady sp \<and> beatDetected inp sp
      then sp\<lparr>notesRef := notesRef sp @
                  [\<lparr>note_id = freshId inp, lane = \<lfloor>randomLane inp * 4\<rfloor>,
                    spawnTime = nowMs inp, note_z = SPAWN_Z, isHit = False\<rparr>],
              lastBeatFrame := frameCount sp\<rparr>
      else sp)"

text \<open>Step 2 of \<^verbatim>\<open>updateGame\<close>: every note moves, consumed notes are marked hit, and
  only notes before the despawn depth that are not hit are kept.\<close>

definition moveNote :: "string set \<Rightarrow> GameNote \<Rightarrow> GameNote" where
  "moveNote consumed n =
     (let n1 = n\<lparr>note_z := note_z n + SPEED\<rparr>
      in if note_id n1 \<in> consumed then n1\<lparr>isHit := True\<rparr> else n1)"

definition moveStage :: "FrameInput \<Rightarrow> Spawner \<Rightarrow> Spawner" where
  "moveStage inp sp =
     sp\<lparr>notesRef := filter (\<lambda>n. note_z n < DESPAWN_Z \<and> \<not> isHit n)
                         (map (moveNote (consumedIds inp)) (notesRef sp))\<rparr>"

definition updateGame :: "FrameInput \<Rightarrow> Spawner \<Rightarrow> Spawner" where
  "updateGame inp sp =
     (if \<not> playing inp then sp
      else moveStage inp (spawnStage inp (sp\<lparr>frameCount := frameCount sp + 1\<rparr>)))"

definition initialSpawner :: "bool \<Rightarrow> Spawner" where
  "initialSpawner ready = \<lparr>notesRef = [], lastBeatFrame = 0, frameCount = 0, audioReady = ready\<rparr>"

fun frames :: "FrameInput list \<Rightarrow> Spawner \<Rightarrow> Spawner" where
  "frames [] sp = sp"
| "frames (inp # inps) sp = frames inps (updateGame inp sp)"

section \<open>Projections, invariants and sample inputs used in the statements\<close>

text \<open>The three cells that orientation fusion owns.\<close>

definition sensorPart :: "App \<Rightarrow> Orientation option \<times> Orientation option \<times> Rotation" where
  "sensorPart s = (baseRotation s, lastRawOrientation s, headRotation s)"

text \<open>A stored orientation whose alpha lies in the range of the platform's compass
  heading, \<open>[0, 360)\<close>.\<close>

definition alphaOk :: "Orientation option \<Rightarrow> bool" where
  "alphaOk r = (case r of None \<Rightarrow> True | Some b \<Rightarrow> 0 \<le> alpha b \<and> alpha b < 360)"

definition sensorOk :: "Orientation option \<times> Orientation option \<times> Rotation \<Rightarrow> bool" where
  "sensorOk p =
     (alphaOk (fst p) \<and> alphaOk (fst (snd p))
      \<and> - 180 \<le> rot_y (snd (snd p)) \<and> rot_y (snd (snd p)) \<le> 180
      \<and> - 80 \<le> rot_x (snd (snd p)) \<and> rot_x (snd (snd p)) \<le> 80)"

definition sensorInv :: "App \<Rightarrow> bool" where
  "sensorInv s = sensorOk (sensorPart s)"

text \<open>An event whose sensor sample, if it is one and carries alpha, has alpha in
  \<open>[0, 360)\<close>.\<close>

definition sampleOk :: "Event \<Rightarrow> bool" where
  "sampleOk ev =
     (case ev of
        EvOrientation e isLandscape \<Rightarrow>
          (case e_alpha e of None \<Rightarrow> True | Some a \<Rightarrow> 0 \<le> a \<and> a < 360)
      | _ \<Rightarrow> True)"

text \<open>Sample configurations, sensor samples and sessions.\<close>

definition sensorConfig :: PlayerConfig where
  "sensorConfig = \<lparr>mode = MAGIC_WINDOW, videoFormat = MONO_2D, isGameMode = False,
                    controlMode = SENSOR, dragAxis = FREE\<rparr>"

definition touchConfig :: PlayerConfig where
  "touchConfig = \<lparr>mode = MAGIC_WINDOW, videoFormat = MONO_2D, isGameMode = False,
                   controlMode = TOUCH, dragAxis = FREE\<rparr>"

definition sample :: "real \<Rightarrow> real \<Rightarrow> real \<Rightarrow> DeviceOrientationEvent" where
  "sample a b g = \<lparr>e_alpha = Some a, e_beta = Some b, e_gamma = Some g\<rparr>"

text \<open>A sensor session in portrait orientation that has seen the samples
  \<open>(10, 0, 0)\<close> and \<open>(40, 5, 0)\<close>.\<close>

definition turnedSession :: App where
  "turnedSession =
     snd (run [EvOrientation (sample 10 0 0) False, EvOrientation (sample 40 5 0) False]
            (handleStartPlay True sensorConfig initialApp))"

text \<open>A sensor session whose first sample has alpha \<open>180\<close> and whose second has
  alpha \<open>0\<close>.\<close>

definition halfTurnSession :: App where
  "halfTurnSession =
     snd (run [EvOrientation (sample 180 0 0) False, EvOrientation (sample 0 0 0) False]
            (handleStartPlay True sensorConfig initialApp))"

definition pointerAt :: "real \<Rightarrow> real \<Rightarrow> PointerEvent" where
  "pointerAt px py = \<lparr>clientX = px, clientY = py, buttons = 1, onProgressBar = False\<rparr>"

text \<open>A touch session after a drag of 100 pixels to the right and 500 pixels down.\<close>

definition draggedSession :: App where
  "draggedSession =
     snd (run [EvPointerDown (pointerAt 100 100), EvPointerMove (pointerAt 200 600)]
            (handleStartPlay True touchConfig initialApp))"

text \<open>A touch session with the pointer pressed at \<open>(100, 100)\<close>, and the same session
  after the drag axis was set to horizontal.\<close>

definition pressedSession :: App where
  "pressedSession =
     snd (run [EvPointerDown (pointerAt 100 100)] (handleStartPlay True touchConfig initialApp))"

definition pressedHorizontalSession :: App where
  "pressedHorizontalSession = snd (run [EvSetDragAxis HORIZONTAL] pressedSession)"

text \<open>The spawn condition of \<^verbatim>\<open>updateGame\<close> for a frame, read on the state before the
  frame: the mean of the bins \<open>0\<close> to \<open>4\<close> exceeds the threshold, and the frame's number
  exceeds the last spawn's by more than the cooldown.\<close>

definition spawnCondition :: "FrameInput \<Rightarrow> Spawner \<Rightarrow> bool" where
  "spawnCondition inp sp =
     (BEAT_THRESHOLD < (\<Sum>i<5. real (unat (freqData inp ! i))) / 5
      \<and> COOLDOWN_FRAMES < frameCount sp + 1 - lastBeatFrame sp)"

text \<open>A frame without bass, and a frame with every bin at \<open>255\<close>.\<close>

definition quietFrame :: FrameInput where
  "quietFrame = \<lparr>playing = True, freqData = replicate 128 0, randomLane = 0.3,
                  freshId = ''note-q'', nowMs = 0, consumedIds = {}\<rparr>"

definition loudFrame :: "string \<Rightarrow> FrameInput" where
  "loudFrame i = \<lparr>playing = True, freqData = replicate 128 255, randomLane = 0.6,
                  freshId = i, nowMs = 0, consumedIds = {}\<rparr>"

text \<open>Fifteen quiet frames from the start; then a peak at frame 16, fourteen quiet
  frames, and a second peak at frame 31, fifteen frames after the first.\<close>

definition quietStart :: Spawner where
  "quietStart = frames (replicate 15 quietFrame) (initialSpawner True)"

definition peaksFifteenApart :: "FrameInput list" where
  "peaksFifteenApart =
     replicate 15 quietFrame @ [loudFrame ''note-a''] @ replicate 14 quietFrame
       @ [loudFrame ''note-b'']"

text \<open>The two cells that note scoring owns.\<close>

definition gamePart :: "App \<Rightarrow> GameStats \<times> string set" where
  "gamePart s = (gameStats s, hitObjects s)"

text \<open>One scoring update, in the words of the specification's claim: the score grows by
  100 plus ten times the combo, the combo by one, and the best combo follows.\<close>

definition scoredOnce :: "GameStats \<Rightarrow> GameStats" where
  "scoredOnce g =
     \<lparr>score = score g + 100 + 10 * combo g, combo = combo g + 1,
      maxCombo = max (maxCombo g) (combo g + 1)\<rparr>"

text \<open>The note ids for which a list of calls holds a scoring update, in order.\<close>

fun noteScores :: "Activation list \<Rightarrow> string list" where
  "noteScores [] = []"
| "noteScores (NoteScore n # acts) = n # noteScores acts"
| "noteScores (a # acts) = noteScores acts"

text \<open>What one handler run may do to the scoring cells: nothing, or one scoring update for a
  note id that was not consumed, which is then consumed.\<close>

definition gameStep :: "Activation list \<Rightarrow> App \<Rightarrow> App \<Rightarrow> bool" where
  "gameStep acts s s' =
     (case noteScores acts of
        [] \<Rightarrow> gamePart s' = gamePart s
      | [n] \<Rightarrow> n \<notin> hitObjects s \<and> gameStats s' = scoredOnce (gameStats s)
               \<and> hitObjects s' = insert n (hitObjects s)
      | _ \<Rightarrow> False)"

text \<open>The relation between the statistics before and after one scoring update, with its two
  consequences.\<close>

definition scoredAs :: "GameStats \<Rightarrow> GameStats \<Rightarrow> bool" where
  "scoredAs g g' =
     (score g' = score g + 100 + 10 * combo g \<and> combo g' = combo g + 1
      \<and> maxCombo g' = max (maxCombo g) (combo g') \<and> combo g' \<le> maxCombo g'
      \<and> score g < score g')"

text \<open>A rhythm-game session in magic-window mode.\<close>

definition gameConfig :: PlayerConfig where
  "gameConfig = \<lparr>mode = MAGIC_WINDOW, videoFormat = MONO_2D, isGameMode = True,
                  controlMode = TOUCH, dragAxis = FREE\<rparr>"

text \<open>Elements under the probe point: a game note, a subtitle word, and an element that is
  no target.\<close>

definition noteElement :: "string \<Rightarrow> HitElement" where
  "noteElement n = \<lparr>closestAction = None, closestWord = None, closestGameNote = Some (Some n)\<rparr>"

definition wordElement :: "string \<Rightarrow> string \<Rightarrow> HitElement" where
  "wordElement wd sentence =
     \<lparr>closestAction = None, closestWord = Some (wd, Some sentence), closestGameNote = None\<rparr>"

definition plainElement :: HitElement where
  "plainElement = \<lparr>closestAction = None, closestWord = None, closestGameNote = None\<rparr>"

text \<open>A window of 800 by 600 pixels whose centre shows the given element; every other point
  shows nothing.\<close>

definition windowShowing :: "HitElement \<Rightarrow> Window" where
  "windowShowing el =
     \<lparr>innerWidth = 800, innerHeight = 600,
      elementFromPoint = (\<lambda>px py. if px = 400 \<and> py = 300 then Some el else None)\<rparr>"

definition gameSession :: App where
  "gameSession = handleStartPlay True gameConfig initialApp"

text \<open>The game session after the gaze has scored the note \<open>note-1\<close>.\<close>

definition noteHitSession :: App where
  "noteHitSession =
     snd (run [EvGazeTick (windowShowing (noteElement ''note-1'')) 1000] gameSession)"

text \<open>A gaze hit on \<open>note-1\<close>, two clicks on it, a click on
  \<open>note-2\<close> and a gaze tick on it.\<close>

definition noteClicks :: "Event list" where
  "noteClicks =
     [EvGazeTick (windowShowing (noteElement ''note-1'')) 1000,
      EvPointerDown (pointerAt 400 300),
      EvPointerUp (windowShowing (noteElement ''note-1'')) 1100,
      EvPointerDown (pointerAt 400 300),
      EvPointerUp (windowShowing (noteElement ''note-1'')) 1200,
      EvPointerDown (pointerAt 400 300),
      EvPointerUp (windowShowing (noteElement ''note-2'')) 1300,
      EvGazeTick (windowShowing (noteElement ''note-2'')) 1400]"

text \<open>The word and sentence of every lookup call in a list of calls, in order.\<close>

fun lookups :: "Activation list \<Rightarrow> (string \<times> string) list" where
  "lookups [] = []"
| "lookups (WordLookup wd sentence # acts) = (wd, sentence) # lookups acts"
| "lookups (a # acts) = lookups acts"

text \<open>Clamping to the unit interval.\<close>

definition clamp01 :: "real \<Rightarrow> real" where
  "clamp01 v = max 0 (min 1 v)"

text \<open>The condition under which a dwell tick on the hovered word \<open>wd\<close> fires:
  the dwell time has passed, no lookup is pending, and no definition of that word is
  shown.\<close>

definition dwellFires :: "string \<Rightarrow> int \<Rightarrow> App \<Rightarrow> bool" where
  "dwellFires wd now s =
     (DWELL_TIME_MS \<le> now - lastHoverTime s \<and> \<not> isTranslating s
      \<and> (wordDefinition s = None \<or> word (the (wordDefinition s)) \<noteq> wd))"

text \<open>The probe point of the window shows a word element with the given
  \<^verbatim>\<open>data-word\<close>; and: it shows no element, or an element that is
  no word.\<close>

definition showsWord :: "Window \<Rightarrow> VRMode \<Rightarrow> string \<Rightarrow> bool" where
  "showsWord w m wd =
     (case probe w m of
        None \<Rightarrow> False
      | Some el \<Rightarrow> (case closestWord el of None \<Rightarrow> False | Some dw \<Rightarrow> fst dw = wd))"

definition showsNoWord :: "Window \<Rightarrow> VRMode \<Rightarrow> bool" where
  "showsNoWord w m =
     (case probe w m of None \<Rightarrow> True | Some el \<Rightarrow> closestWord el = None)"

text \<open>The gaze cells that a dwell reads and writes: the hovered word, the start of the
  hover and the progress; and: a lookup is pending or a definition is shown.\<close>

definition dwellCells :: "App \<Rightarrow> string option \<times> int \<times> real" where
  "dwellCells s = (hoveredWord s, lastHoverTime s, dwellProgress s)"

definition lookupBusy :: "App \<Rightarrow> bool" where
  "lookupBusy s = (isTranslating s \<or> wordDefinition s \<noteq> None)"

text \<open>
  An uninterrupted dwell on the word \<open>wd\<close> is a run of session events of any kind in
  which every gaze tick finds the word under the probe point and no event calls
  \<^verbatim>\<open>closeDefinition\<close> (the close button, by its \<^verbatim>\<open>onClick\<close> handler or by a click that
  probes it). \<^verbatim>\<open>closeDefinition\<close> clears the hovered word and restarts the timer, so it
  ends the dwell and begins a new one even while the probe point stays on the word.
  \<open>keepsDwell\<close> is the condition on one event in the state it meets, \<open>dwellRun\<close> the
  condition on a run.
\<close>

definition keepsDwell :: "string \<Rightarrow> Event \<Rightarrow> App \<Rightarrow> bool" where
  "keepsDwell wd ev s =
     (DefinitionClose \<notin> set (fst (step ev s)) \<and>
      (case ev of
         EvGazeTick w now \<Rightarrow> showsWord w (mode (playerConfig s)) wd
       | _ \<Rightarrow> True))"

fun dwellRun :: "string \<Rightarrow> Event list \<Rightarrow> App \<Rightarrow> bool" where
  "dwellRun wd [] s = True"
| "dwellRun wd (ev # evs) s = (keepsDwell wd ev s \<and> dwellRun wd evs (snd (step ev s)))"

text \<open>The lookups that the gaze ticks of a run fire (those fired by clicks left out), in
  order.\<close>

definition tickLookups :: "Event \<Rightarrow> App \<Rightarrow> (string \<times> string) list" where
  "tickLookups ev s =
     (case ev of EvGazeTick w now \<Rightarrow> lookups (fst (step ev s)) | _ \<Rightarrow> [])"

fun gazeLookups :: "Event list \<Rightarrow> App \<Rightarrow> (string \<times> string) list" where
  "gazeLookups [] s = []"
| "gazeLookups (ev # evs) s = tickLookups ev s @ gazeLookups evs (snd (step ev s))"

definition isClick :: "Event \<Rightarrow> bool" where
  "isClick ev = (case ev of EvPointerUp w now \<Rightarrow> True | _ \<Rightarrow> False)"

text \<open>The kinds of calls: those of an action trigger, of a game note, of a word token, and
  the lookup alone.\<close>

definition isActionAct :: "Activation \<Rightarrow> bool" where
  "isActionAct a = (case a of StartCalibration \<Rightarrow> True | TogglePlay \<Rightarrow> True | _ \<Rightarrow> False)"

definition isNoteAct :: "Activation \<Rightarrow> bool" where
  "isNoteAct a = (case a of NoteScore n \<Rightarrow> True | _ \<Rightarrow> False)"


definition isLookupAct :: "Activation \<Rightarrow> bool" where
  "isLookupAct a = (case a of WordLookup wd sentence \<Rightarrow> True | _ \<Rightarrow> False)"

text \<open>A lookup session (touch control, no rhythm game), windows that show a word, and
  definitions as a lookup returns them.\<close>

definition lookupSession :: App where
  "lookupSession = handleStartPlay True touchConfig initialApp"

definition catWindow :: Window where
  "catWindow = windowShowing (wordElement ''cat'' ''the cat sat'')"

definition dogWindow :: Window where
  "dogWindow = windowShowing (wordElement ''dog'' ''the dog ran'')"

definition plainWindow :: Window where
  "plainWindow = windowShowing plainElement"

definition catDefinition :: WordDefinition where
  "catDefinition = \<lparr>word = ''cat'', translation = ''Katze'', pronunciation = ''kat'',
                     wordType = ''noun'', contextUsage = None\<rparr>"

definition dogDefinition :: WordDefinition where
  "dogDefinition = \<lparr>word = ''dog'', translation = ''Hund'', pronunciation = ''dog'',
                     wordType = ''noun'', contextUsage = None\<rparr>"

text \<open>The lookup session after the gaze has entered the word \<open>cat\<close> at time
  \<open>1000\<close>.\<close>

definition hoverCatSession :: App where
  "hoverCatSession = snd (run [EvGazeTick catWindow 1000] lookupSession)"

text \<open>The rest of that dwell: ticks on the word before and after the lookup returns, a
  click on the word and a key press.\<close>

definition catDwell :: "Event list" where
  "catDwell =
     [EvGazeTick catWindow 2200, EvGazeTick catWindow 2300, EvTranslateResolved catDefinition,
      EvPointerDown (pointerAt 400 300), EvPointerUp catWindow 3000, EvKeyDown '' '',
      EvGazeTick catWindow 3500]"

text \<open>Ticks on the word with the definition closed in between.\<close>

definition closedCatDwell :: "Event list" where
  "closedCatDwell =
     [EvGazeTick catWindow 2200, EvTranslateResolved catDefinition, EvCloseDefinition 3000,
      EvGazeTick catWindow 3100, EvGazeTick catWindow 4300]"

text \<open>A dwell on \<open>cat\<close> fires and its definition arrives; the gaze leaves the word and
  comes back to it at time \<open>4000\<close>.\<close>

definition catShownSession :: App where
  "catShownSession =
     snd (run [EvGazeTick catWindow 1000, EvGazeTick catWindow 2200,
               EvTranslateResolved catDefinition, EvGazeTick plainWindow 3000,
               EvGazeTick catWindow 4000] lookupSession)"

text \<open>A dwell on \<open>dog\<close> fires and its definition arrives; the gaze moves on to \<open>cat\<close> at
  time \<open>3000\<close>.\<close>

definition dogShownSession :: App where
  "dogShownSession =
     snd (run [EvGazeTick dogWindow 1000, EvGazeTick dogWindow 2200,
               EvTranslateResolved dogDefinition, EvGazeTick catWindow 3000] lookupSession)"

text \<open>The game session after the gaze has entered the word \<open>cat\<close>.\<close>

definition gameHoverCatSession :: App where
  "gameHoverCatSession = snd (run [EvGazeTick catWindow 1000] gameSession)"





section \<open>Frame lemmas: what each handler leaves of the sensor cells\<close>

lemma sensorPart_togglePlay [simp]: "sensorPart (togglePlay s) = sensorPart s"
  by (simp add: sensorPart_def togglePlay_def)

lemma sensorPart_handleTranslate [simp]: "sensorPart (handleTranslate a b s) = sensorPart s"
  by (simp add: sensorPart_def handleTranslate_def)

lemma sensorPart_translateResolved [simp]: "sensorPart (translateResolved r s) = sensorPart s"
  by (simp add: sensorPart_def translateResolved_def)

lemma sensorPart_closeDefinition [simp]: "sensorPart (closeDefinition t s) = sensorPart s"
  by (simp add: sensorPart_def closeDefinition_def)

lemma sensorPart_clickEmpty [simp]: "sensorPart (snd (clickEmpty s)) = sensorPart s"
  by (simp add: clickEmpty_def)

lemma sensorPart_clickAction [simp]: "sensorPart (snd (clickAction a s)) = sensorPart s"
  by (simp add: clickAction_def) (simp add: sensorPart_def)

lemma sensorPart_clickNote [simp]: "sensorPart (snd (clickNote n s)) = sensorPart s"
  by (simp add: clickNote_def) (simp add: sensorPart_def)

lemma sensorPart_clickWord [simp]: "sensorPart (snd (clickWord a b t s)) = sensorPart s"
  by (simp add: clickWord_def)

lemma sensorPart_clickElement [simp]: "sensorPart (snd (clickElement el t s)) = sensorPart s"
  by (simp add: clickElement_def split: option.split)

lemma sensorPart_handleScreenClick:
  "sensorPart (snd (handleScreenClick w t s)) =
     (if isCalibrationMode s then sensorPart (confirmRecenter s) else sensorPart s)"
  by (simp add: handleScreenClick_def split: option.split)

lemma sensorPart_flags [simp]:
  "sensorPart (s\<lparr>isDragging := b\<rparr>) = sensorPart s"
  "sensorPart (s\<lparr>isSeeking := b\<rparr>) = sensorPart s"
  "sensorPart (s\<lparr>playerConfig := c\<rparr>) = sensorPart s"
  "sensorPart (s\<lparr>showSettingsOverlay := b\<rparr>) = sensorPart s"
  by (simp_all add: sensorPart_def)

lemma sensorPart_onPointerUp:
  "sensorPart (snd (onPointerUp w t s)) = sensorPart s \<or>
   sensorPart (snd (onPointerUp w t s)) = sensorPart (confirmRecenter s)"
  by (simp add: onPointerUp_def Let_def sensorPart_handleScreenClick)

lemma sensorPart_onPointerDown [simp]: "sensorPart (onPointerDown e s) = sensorPart s"
  by (simp add: onPointerDown_def Let_def sensorPart_def)

lemma sensorPart_onPointerMove [simp]: "sensorPart (onPointerMove e s) = sensorPart s"
  by (simp add: onPointerMove_def Let_def sensorPart_def)

lemma sensorPart_touch [simp]:
  "sensorPart (onTouchStart d s) = sensorPart s"
  "sensorPart (onTouchMove d s) = sensorPart s"
  "sensorPart (onTouchEnd s) = sensorPart s"
  by (simp_all add: onTouchStart_def onTouchMove_def onTouchEnd_def sensorPart_def
      split: option.split)

lemma sensorPart_gazeNote [simp]: "sensorPart (snd (gazeNote el s)) = sensorPart s"
  by (simp add: gazeNote_def split: option.split) (simp add: sensorPart_def)

lemma sensorPart_gazeDwell [simp]: "sensorPart (snd (gazeDwell a b t s)) = sensorPart s"
  by (simp add: gazeDwell_def Let_def) (simp add: sensorPart_def handleTranslate_def)

lemma sensorPart_gazeWordHit [simp]: "sensorPart (snd (gazeWordHit a b t s)) = sensorPart s"
  by (simp add: gazeWordHit_def) (simp add: sensorPart_def)

lemma sensorPart_gazeWordMiss [simp]: "sensorPart (snd (gazeWordMiss s)) = sensorPart s"
  by (simp add: gazeWordMiss_def) (simp add: sensorPart_def)

lemma sensorPart_gazeWord [simp]: "sensorPart (snd (gazeWord el t s)) = sensorPart s"
  by (simp add: gazeWord_def split: option.split)

lemma sensorPart_checkGaze [simp]: "sensorPart (snd (checkGaze w t s)) = sensorPart s"
  by (simp add: checkGaze_def split: option.split) (simp add: sensorPart_def)

lemma sensorPart_gazeTick [simp]: "sensorPart (snd (gazeTick w t s)) = sensorPart s"
  by (simp add: gazeTick_def)

lemma sensorPart_handleKeyDown [simp]: "sensorPart (snd (handleKeyDown k s)) = sensorPart s"
  by (simp add: handleKeyDown_def handleExit_def) (simp add: sensorPart_def)

lemma sensorPart_vr [simp]:
  "sensorPart (handleEnterVR s) = sensorPart s"
  "sensorPart (handleExitVRMode s) = sensorPart s"
  by (simp_all add: sensorPart_def handleEnterVR_def handleExitVRMode_def)

lemma sensorInv_unfold:
  "sensorInv s =
     (alphaOk (baseRotation s) \<and> alphaOk (lastRawOrientation s)
      \<and> - 180 \<le> rot_y (headRotation s) \<and> rot_y (headRotation s) \<le> 180
      \<and> - 80 \<le> rot_x (headRotation s) \<and> rot_x (headRotation s) \<le> 80)"
  by (simp add: sensorInv_def sensorOk_def sensorPart_def)

text \<open>The two wraps of \<^verbatim>\<open>handleOrientation\<close> on a difference of two headings.\<close>

lemma wrap_range:
  fixes a b :: real
  assumes "0 \<le> a" "a < 360" "0 \<le> b" "b < 360"
  shows "- 180 \<le> (if (if a - b > 180 then a - b - 360 else a - b) < - 180
                    then (if a - b > 180 then a - b - 360 else a - b) + 360
                    else (if a - b > 180 then a - b - 360 else a - b))"
    and "(if (if a - b > 180 then a - b - 360 else a - b) < - 180
          then (if a - b > 180 then a - b - 360 else a - b) + 360
          else (if a - b > 180 then a - b - 360 else a - b)) \<le> 180"
  using assms by auto

lemma handleOrientation_sensorInv:
  assumes "sensorInv s"
    and "case e_alpha e of None \<Rightarrow> True | Some a \<Rightarrow> 0 \<le> a \<and> a < 360"
  shows "sensorInv (handleOrientation e l s)"
proof (cases "e_alpha e")
  case None
  then show ?thesis using assms by (simp add: handleOrientation_def)
next
  case (Some a)
  with assms(2) have a: "0 \<le> a" "a < 360" by simp_all
  show ?thesis
  proof (cases "baseRotation s")
    case None
    then show ?thesis using Some a assms(1)
      by (simp add: handleOrientation_def Let_def orZero_def sensorInv_unfold alphaOk_def)
  next
    case (Some b)
    with assms(1) have b: "0 \<le> alpha b" "alpha b < 360"
      by (simp_all add: sensorInv_unfold alphaOk_def)
    show ?thesis
      using wrap_range [OF a b] Some \<open>e_alpha e = Some a\<close> a assms(1)
      by (simp add: handleOrientation_def Let_def orZero_def sensorInv_unfold alphaOk_def)
  qed
qed

lemma confirmRecenter_sensorInv: "sensorInv s \<Longrightarrow> sensorInv (confirmRecenter s)"
  by (simp add: sensorInv_unfold confirmRecenter_def Let_def)

lemma step_sensorInv:
  assumes "sensorInv s" and "sampleOk ev"
  shows "sensorInv (snd (step ev s))"
proof (cases ev)
  case (EvOrientation e l)
  then show ?thesis using assms
    by (simp add: deviceorientation_def sampleOk_def handleOrientation_sensorInv)
next
  case (EvPointerUp w t)
  then show ?thesis
    using sensorPart_onPointerUp [of w t s] assms(1) confirmRecenter_sensorInv [of s]
    by (auto simp: sensorInv_def)
qed (use assms(1) in \<open>simp_all add: sensorInv_def\<close>)

lemma run_sensorInv:
  "sensorInv s \<Longrightarrow> \<forall>ev \<in> set evs. sampleOk ev \<Longrightarrow> sensorInv (snd (run evs s))"
  by (induction evs arbitrary: s) (simp_all add: step_sensorInv)

lemma handleStartPlay_sensorInv:
  "alphaOk (lastRawOrientation s) \<Longrightarrow> sensorInv (handleStartPlay c cfg s)"
  by (simp add: handleStartPlay_def handleEnterVR_def Let_def sensorInv_unfold alphaOk_def)

lemma initialApp_sensorInv: "sensorInv initialApp"
  by (simp add: initialApp_def sensorInv_unfold alphaOk_def)

lemmas sample_session_defs =
  sensorConfig_def touchConfig_def sample_def pointerAt_def handleStartPlay_def initialApp_def
  deviceorientation_def handleOrientation_def orZero_def onPointerDown_def onPointerMove_def
  pinchActive_def progressBarMounted_def Let_def

section \<open>Recentering\<close>

text \<open>
  C1 (as amended). In touch mode the rotation read right after a recenter is \<open>(0, 0)\<close>. In
  sensor mode, with a raw sample on record, a recenter replaces the calibration base by
  that most recent sample and leaves the stored head rotation as it is; the rotation
  that the next event computes from a sample equal to the most recent one is \<open>(0, 0)\<close>,
  in landscape and in portrait.
\<close>

theorem C1_recenter:
  "(controlMode (playerConfig s) = TOUCH \<longrightarrow>
      activeRotation (confirmRecenter s) = \<lparr>rot_x = 0, rot_y = 0\<rparr>) \<and>
   (controlMode (playerConfig s) = SENSOR \<longrightarrow> lastRawOrientation s = Some r \<longrightarrow>
      baseRotation (confirmRecenter s) = Some r \<and>
      headRotation (confirmRecenter s) = headRotation s \<and>
      headRotation (handleOrientation
          \<lparr>e_alpha = Some (alpha r), e_beta = Some (beta r), e_gamma = Some (gamma r)\<rparr>
          isLandscape (confirmRecenter s)) = \<lparr>rot_x = 0, rot_y = 0\<rparr>)"
  by (simp add: confirmRecenter_def activeRotation_def handleOrientation_def orZero_def Let_def)

text \<open>The theorem at the dragged touch session and at the turned sensor session.\<close>

theorem C1_recenter_witness:
  "controlMode (playerConfig draggedSession) = TOUCH \<and>
   activeRotation draggedSession = \<lparr>rot_x = 85, rot_y = 20\<rparr> \<and>
   activeRotation (confirmRecenter draggedSession) = \<lparr>rot_x = 0, rot_y = 0\<rparr> \<and>
   controlMode (playerConfig turnedSession) = SENSOR \<and>
   lastRawOrientation turnedSession = Some \<lparr>alpha = 40, beta = 5, gamma = 0\<rparr> \<and>
   baseRotation (confirmRecenter turnedSession) = Some \<lparr>alpha = 40, beta = 5, gamma = 0\<rparr> \<and>
   headRotation (confirmRecenter turnedSession) = headRotation turnedSession \<and>
   headRotation (handleOrientation (sample 40 5 0) False (confirmRecenter turnedSession))
     = \<lparr>rot_x = 0, rot_y = 0\<rparr>"
proof -
  have touch: "controlMode (playerConfig draggedSession) = TOUCH"
    and before: "activeRotation draggedSession = \<lparr>rot_x = 85, rot_y = 20\<rparr>"
    by (simp_all add: draggedSession_def activeRotation_def sample_session_defs)
  have sensor: "controlMode (playerConfig turnedSession) = SENSOR"
    and raw: "lastRawOrientation turnedSession = Some \<lparr>alpha = 40, beta = 5, gamma = 0\<rparr>"
    by (simp_all add: turnedSession_def sample_session_defs)
  from C1_recenter [of draggedSession] touch
  have t: "activeRotation (confirmRecenter draggedSession) = \<lparr>rot_x = 0, rot_y = 0\<rparr>"
    by simp
  from C1_recenter [of turnedSession "\<lparr>alpha = 40, beta = 5, gamma = 0\<rparr>" False] sensor raw
  have "baseRotation (confirmRecenter turnedSession) = Some \<lparr>alpha = 40, beta = 5, gamma = 0\<rparr>"
    and "headRotation (confirmRecenter turnedSession) = headRotation turnedSession"
    and "headRotation (handleOrientation (sample 40 5 0) False (confirmRecenter turnedSession))
           = \<lparr>rot_x = 0, rot_y = 0\<rparr>"
    by (simp_all add: sample_def)
  with touch before sensor raw t show ?thesis by simp
qed

text \<open>
  The claim as stated fails in sensor mode: after the samples with alpha \<open>10\<close> and \<open>40\<close>
  the head rotation is (pitch \<open>5\<close>, yaw \<open>30\<close>), and the rotation read right after the
  recenter is still that value.
\<close>

theorem C1_counterexample:
  "controlMode (playerConfig turnedSession) = SENSOR \<and>
   activeRotation (confirmRecenter turnedSession) = \<lparr>rot_x = 5, rot_y = 30\<rparr> \<and>
   activeRotation (confirmRecenter turnedSession) \<noteq> \<lparr>rot_x = 0, rot_y = 0\<rparr>"
  by (simp add: turnedSession_def confirmRecenter_def activeRotation_def sample_session_defs)

section \<open>Range of the fused rotation\<close>

text \<open>
  C2 (as amended). Starting from a state whose stored headings lie in \<open>[0, 360)\<close> and whose
  head rotation lies in range, after any sequence of session events whose sensor samples
  have alpha in \<open>[0, 360)\<close> the yaw lies in the closed interval \<open>[-180, 180]\<close> and the
  pitch in \<open>[-80, 80]\<close>; and every sample that carries alpha, whatever its values, leaves
  the pitch in \<open>[-80, 80]\<close>.
\<close>

theorem C2_rotation_range:
  assumes "sensorInv s" and "\<forall>ev \<in> set evs. sampleOk ev"
  shows "- 180 \<le> rot_y (headRotation (snd (run evs s))) \<and>
         rot_y (headRotation (snd (run evs s))) \<le> 180 \<and>
         - 80 \<le> rot_x (headRotation (snd (run evs s))) \<and>
         rot_x (headRotation (snd (run evs s))) \<le> 80 \<and>
         - 80 \<le> rot_x (headRotation (handleOrientation (sample a b g) isLandscape s')) \<and>
         rot_x (headRotation (handleOrientation (sample a b g) isLandscape s')) \<le> 80"
proof -
  have "sensorInv (snd (run evs s))"
    using assms by (rule run_sensorInv)
  moreover have "- 80 \<le> rot_x (headRotation (handleOrientation (sample a b g) isLandscape s'))"
    and "rot_x (headRotation (handleOrientation (sample a b g) isLandscape s')) \<le> 80"
    by (simp_all add: handleOrientation_def sample_def Let_def)
  ultimately show ?thesis by (simp add: sensorInv_unfold)
qed

theorem C2_rotation_range_witness:
  "sensorInv (handleStartPlay True sensorConfig initialApp) \<and>
   sampleOk (EvOrientation (sample 180 0 0) False) \<and>
   sampleOk (EvOrientation (sample 0 0 0) False) \<and>
   - 180 \<le> rot_y (headRotation halfTurnSession) \<and>
   rot_y (headRotation halfTurnSession) \<le> 180 \<and>
   - 80 \<le> rot_x (headRotation halfTurnSession) \<and>
   rot_x (headRotation halfTurnSession) \<le> 80"
proof -
  have inv: "sensorInv (handleStartPlay True sensorConfig initialApp)"
    by (simp add: handleStartPlay_sensorInv initialApp_def alphaOk_def)
  have ok: "sampleOk (EvOrientation (sample 180 0 0) False)"
    "sampleOk (EvOrientation (sample 0 0 0) False)"
    by (simp_all add: sampleOk_def sample_def)
  then have all: "\<forall>ev \<in> set [EvOrientation (sample 180 0 0) False,
      EvOrientation (sample 0 0 0) False]. sampleOk ev"
    by simp
  from C2_rotation_range [OF inv all, of 0 0 0 False initialApp] inv ok
  show ?thesis by (simp add: halfTurnSession_def)
qed

text \<open>
  The claim as stated fails at the lower end of the yaw interval: with the calibration
  base at alpha \<open>180\<close>, a sample with alpha \<open>0\<close> gives the yaw \<open>-180\<close>, which the second
  wrap (\<^verbatim>\<open>yaw < -180\<close>) leaves alone.
\<close>

theorem C2_counterexample:
  "rot_y (headRotation halfTurnSession) = - 180 \<and>
   \<not> (- 180 < rot_y (headRotation halfTurnSession))"
  by (simp add: halfTurnSession_def sample_session_defs)

section \<open>Touch rotation\<close>

lemma onPointerMove_config [simp]: "playerConfig (onPointerMove e s) = playerConfig s"
  by (simp add: onPointerMove_def Let_def)

lemma onPointerMove_horizontal:
  "dragAxis (playerConfig s) = HORIZONTAL \<Longrightarrow>
   rot_x (touchRotation (onPointerMove e s)) = rot_x (touchRotation s)"
  by (simp add: onPointerMove_def Let_def)

lemma run_moves_horizontal:
  "dragAxis (playerConfig s) = HORIZONTAL \<Longrightarrow>
   rot_x (touchRotation (snd (run (map EvPointerMove es) s))) = rot_x (touchRotation s)"
  by (induction es arbitrary: s) (simp_all add: onPointerMove_horizontal)

text \<open>
  C9 (as amended). A pointer move in the player view that is neither a seek nor a pinch,
  in touch mode with a button pressed, adds \<open>0.2\<close> times the horizontal delta to the yaw;
  with the drag axis \<open>FREE\<close> it adds \<open>0.2\<close> times the vertical delta to the pitch and
  clamps the pitch to \<open>[-85, 85]\<close>; with the drag axis \<open>HORIZONTAL\<close> it leaves the pitch as
  it is, and so does every sequence of pointer moves (a pitch of \<open>0\<close> stays \<open>0\<close>). A
  recenter in touch mode resets the accumulator to \<open>(0, 0)\<close>.
\<close>

theorem C9_touch:
  "(view s = ViewPlayer \<and> \<not> isSeeking s \<and> \<not> pinchActive s
      \<and> controlMode (playerConfig s) = TOUCH \<and> 0 < buttons e \<longrightarrow>
      rot_y (touchRotation (onPointerMove e s))
        = rot_y (touchRotation s) + (clientX e - fst (lastPointer s)) * 0.2 \<and>
      (dragAxis (playerConfig s) = FREE \<longrightarrow>
         rot_x (touchRotation (onPointerMove e s))
           = max (- 85) (min 85 (rot_x (touchRotation s)
                                   + (clientY e - snd (lastPointer s)) * 0.2)) \<and>
         - 85 \<le> rot_x (touchRotation (onPointerMove e s)) \<and>
         rot_x (touchRotation (onPointerMove e s)) \<le> 85) \<and>
      (dragAxis (playerConfig s) = HORIZONTAL \<longrightarrow>
         rot_x (touchRotation (onPointerMove e s)) = rot_x (touchRotation s))) \<and>
   (dragAxis (playerConfig s) = HORIZONTAL \<longrightarrow>
      rot_x (touchRotation (snd (run (map EvPointerMove es) s))) = rot_x (touchRotation s)) \<and>
   (controlMode (playerConfig s) = TOUCH \<longrightarrow>
      touchRotation (confirmRecenter s) = \<lparr>rot_x = 0, rot_y = 0\<rparr>)"
proof -
  have "rot_x (touchRotation (onPointerMove e s)) = rot_x (touchRotation s)"
    if "dragAxis (playerConfig s) = HORIZONTAL"
    using that by (rule onPointerMove_horizontal)
  moreover have "rot_x (touchRotation (snd (run (map EvPointerMove es) s)))
      = rot_x (touchRotation s)"
    if "dragAxis (playerConfig s) = HORIZONTAL"
    using that by (rule run_moves_horizontal)
  moreover have "touchRotation (confirmRecenter s) = \<lparr>rot_x = 0, rot_y = 0\<rparr>"
    if "controlMode (playerConfig s) = TOUCH"
    using that by (simp add: confirmRecenter_def Let_def)
  moreover have "rot_y (touchRotation (onPointerMove e s))
        = rot_y (touchRotation s) + (clientX e - fst (lastPointer s)) * 0.2"
    and "dragAxis (playerConfig s) = FREE \<longrightarrow>
         rot_x (touchRotation (onPointerMove e s))
           = max (- 85) (min 85 (rot_x (touchRotation s)
                                   + (clientY e - snd (lastPointer s)) * 0.2))"
    if "view s = ViewPlayer" "\<not> isSeeking s" "\<not> pinchActive s"
      "controlMode (playerConfig s) = TOUCH" "0 < buttons e"
    using that by (simp_all add: onPointerMove_def Let_def)
  ultimately show ?thesis by auto
qed

text \<open>The theorem at the pressed touch session with a move to \<open>(200, 600)\<close>, and at the
  same session with the horizontal drag axis.\<close>

theorem C9_touch_witness:
  "view pressedSession = ViewPlayer \<and> \<not> isSeeking pressedSession \<and>
   \<not> pinchActive pressedSession \<and> controlMode (playerConfig pressedSession) = TOUCH \<and>
   0 < buttons (pointerAt 200 600) \<and> dragAxis (playerConfig pressedSession) = FREE \<and>
   rot_y (touchRotation (onPointerMove (pointerAt 200 600) pressedSession)) = 20 \<and>
   rot_x (touchRotation (onPointerMove (pointerAt 200 600) pressedSession)) = 85 \<and>
   dragAxis (playerConfig pressedHorizontalSession) = HORIZONTAL \<and>
   rot_x (touchRotation (snd (run (map EvPointerMove [pointerAt 200 600, pointerAt 300 0])
                                pressedHorizontalSession))) = 0 \<and>
   touchRotation (confirmRecenter (onPointerMove (pointerAt 200 600) pressedSession))
     = \<lparr>rot_x = 0, rot_y = 0\<rparr>"
proof -
  have pre: "view pressedSession = ViewPlayer" "\<not> isSeeking pressedSession"
    "\<not> pinchActive pressedSession" "controlMode (playerConfig pressedSession) = TOUCH"
    "0 < buttons (pointerAt 200 600)" "dragAxis (playerConfig pressedSession) = FREE"
    "fst (lastPointer pressedSession) = 100" "snd (lastPointer pressedSession) = 100"
    "touchRotation pressedSession = \<lparr>rot_x = 0, rot_y = 0\<rparr>"
    by (simp_all add: pressedSession_def sample_session_defs)
  have hor: "dragAxis (playerConfig pressedHorizontalSession) = HORIZONTAL"
    "rot_x (touchRotation pressedHorizontalSession) = 0"
    by (simp_all add: pressedHorizontalSession_def pre)
  have touch': "controlMode (playerConfig (onPointerMove (pointerAt 200 600) pressedSession))
      = TOUCH"
    by (simp add: pre)
  from C9_touch [of pressedSession "pointerAt 200 600" "[]"] pre
  have "rot_y (touchRotation (onPointerMove (pointerAt 200 600) pressedSession)) = 20"
    and "rot_x (touchRotation (onPointerMove (pointerAt 200 600) pressedSession)) = 85"
    by (simp_all add: pointerAt_def)
  moreover from C9_touch [of pressedHorizontalSession "pointerAt 200 600"
      "[pointerAt 200 600, pointerAt 300 0]"] hor
  have "rot_x (touchRotation (snd (run (map EvPointerMove [pointerAt 200 600, pointerAt 300 0])
                                pressedHorizontalSession))) = 0"
    by simp
  moreover from C9_touch [of "onPointerMove (pointerAt 200 600) pressedSession"
      "pointerAt 200 600" "[]"] touch'
  have "touchRotation (confirmRecenter (onPointerMove (pointerAt 200 600) pressedSession))
     = \<lparr>rot_x = 0, rot_y = 0\<rparr>"
    by simp
  ultimately show ?thesis using pre hor by simp
qed

text \<open>
  The claim as stated fails on the clamp: a free drag of 500 pixels down takes the touch
  pitch to \<open>85\<close>, above the bound \<open>80\<close> of the sensor pitch.
\<close>

theorem C9_counterexample:
  "dragAxis (playerConfig draggedSession) = FREE \<and>
   rot_x (touchRotation draggedSession) = 85 \<and>
   \<not> rot_x (touchRotation draggedSession) \<le> 80"
  by (simp add: draggedSession_def sample_session_defs)

section \<open>Per-eye texture windows\<close>

text \<open>
  C5. For every format and eye, the window of the texture that \<^verbatim>\<open>VRVideoRenderer\<close> maps
  onto the geometry is the one the specification gives for the format's stereo split:
  side-by-side, left eye U in \<open>[0, 0.5]\<close> and right eye U in \<open>[0.5, 1]\<close>; top-bottom, left
  eye V in \<open>[0.5, 1]\<close> and right eye V in \<open>[0, 0.5]\<close>; the single eye has the left eye's
  window; a mono source gives every eye the full texture.
\<close>

theorem C5_texture_windows:
  "(uWindow (textureTransform fmt eye), vWindow (textureTransform fmt eye))
     = eyeWindow_spec (stereoSplit_spec fmt) eye"
  by (cases fmt; cases eye;
      simp add: textureTransform_def uWindow_def vWindow_def eyeWindow_spec_def Let_def)

text \<open>The theorem at the panoramic formats.\<close>

theorem C5_texture_windows_witness:
  "isVRVideo VR180_SBS \<and> isVRVideo VR360_SBS \<and> isVRVideo VR180_TB \<and> isVRVideo VR360_TB \<and>
   isVRVideo VR180_MONO \<and> isVRVideo VR360_MONO \<and>
   uWindow (textureTransform VR180_SBS EyeLeft) = (0, 1 / 2) \<and>
   vWindow (textureTransform VR180_SBS EyeLeft) = (0, 1) \<and>
   uWindow (textureTransform VR360_SBS EyeRight) = (1 / 2, 1) \<and>
   uWindow (textureTransform VR360_SBS EyeSingle) = (0, 1 / 2) \<and>
   vWindow (textureTransform VR180_TB EyeLeft) = (1 / 2, 1) \<and>
   uWindow (textureTransform VR180_TB EyeLeft) = (0, 1) \<and>
   vWindow (textureTransform VR360_TB EyeRight) = (0, 1 / 2) \<and>
   vWindow (textureTransform VR360_TB EyeSingle) = (1 / 2, 1) \<and>
   uWindow (textureTransform VR180_MONO EyeRight) = (0, 1) \<and>
   vWindow (textureTransform VR360_MONO EyeLeft) = (0, 1)"
  using C5_texture_windows [of VR180_SBS EyeLeft] C5_texture_windows [of VR360_SBS EyeRight]
    C5_texture_windows [of VR360_SBS EyeSingle] C5_texture_windows [of VR180_TB EyeLeft]
    C5_texture_windows [of VR360_TB EyeRight] C5_texture_windows [of VR360_TB EyeSingle]
    C5_texture_windows [of VR180_MONO EyeRight] C5_texture_windows [of VR360_MONO EyeLeft]
  by (simp add: eyeWindow_spec_def isVRVideo_def)

section \<open>Note spawner\<close>

lemma bassLoop_None [simp]: "bassLoop d i k None = None"
  by (induction k arbitrary: i) simp_all

lemma bassLoop_sum:
  "i + k \<le> length d \<Longrightarrow>
   bassLoop d i k (Some acc) = Some (acc + (\<Sum>j = i..<i + k. real (unat (d ! j))))"
proof (induction k arbitrary: i acc)
  case 0
  then show ?case by simp
next
  case (Suc k)
  then have "bassLoop d (Suc i) k (Some (acc + real (unat (d ! i))))
      = Some (acc + real (unat (d ! i)) + (\<Sum>j = Suc i..<Suc i + k. real (unat (d ! j))))"
    by simp
  moreover have "(\<Sum>j = i..<i + Suc k. real (unat (d ! j)))
      = real (unat (d ! i)) + (\<Sum>j = Suc i..<Suc i + k. real (unat (d ! j)))"
    by (simp add: sum.atLeast_Suc_lessThan)
  ultimately show ?case using Suc.prems by simp
qed

lemma bassAvg_mean:
  "5 \<le> length d \<Longrightarrow> bassAvg d = Some ((\<Sum>i<5. real (unat (d ! i))) / 5)"
  using bassLoop_sum [of 0 5 d 0] by (simp add: bassAvg_def lessThan_atLeast0)

lemma lane_range:
  fixes r :: real
  assumes "0 \<le> r" "r < 1"
  shows "\<lfloor>r * 4\<rfloor> \<in> {0, 1, 2, 3}"
proof -
  have "0 \<le> \<lfloor>r * 4\<rfloor>" using assms by simp
  moreover have "\<lfloor>r * 4\<rfloor> < 4" using assms by (simp add: floor_less_iff)
  ultimately have "\<lfloor>r * 4\<rfloor> = 0 \<or> \<lfloor>r * 4\<rfloor> = 1 \<or> \<lfloor>r * 4\<rfloor> = 2 \<or> \<lfloor>r * 4\<rfloor> = 3"
    by arith
  then show ?thesis by simp
qed

lemma updateGame_paused: "\<not> playing inp \<Longrightarrow> updateGame inp sp = sp"
  by (simp add: updateGame_def)

lemma updateGame_no_audio:
  "playing inp \<Longrightarrow> \<not> audioReady sp \<Longrightarrow>
   updateGame inp sp = moveStage inp (sp\<lparr>frameCount := frameCount sp + 1\<rparr>)"
  by (simp add: updateGame_def spawnStage_def)

text \<open>
  C7 (as amended). On a frame while media is playing, with the analyser set up, at least
  five bins in the array and the random value in \<open>[0, 1)\<close>: the spawner computes the mean
  of bins \<open>0\<close> to \<open>4\<close>; the lane \<open>floor (4 * random)\<close> is one of \<open>0, 1, 2, 3\<close>; and the frame
  appends exactly one note, at that lane and at the spawn depth, if and only if the mean
  exceeds the threshold and strictly more than the cooldown's number of frames separate
  this frame from the last spawn; otherwise it appends nothing. The notes then move and
  are filtered as on every frame.
\<close>

theorem C7_spawner:
  assumes "playing inp" and "audioReady sp" and "5 \<le> length (freqData inp)"
    and "0 \<le> randomLane inp" and "randomLane inp < 1"
  shows "bassAvg (freqData inp) = Some ((\<Sum>i<5. real (unat (freqData inp ! i))) / 5) \<and>
    \<lfloor>randomLane inp * 4\<rfloor> \<in> {0, 1, 2, 3} \<and>
    updateGame inp sp =
      moveStage inp
        (if spawnCondition inp sp
         then sp\<lparr>frameCount := frameCount sp + 1,
                 notesRef := notesRef sp @
                   [\<lparr>note_id = freshId inp, lane = \<lfloor>randomLane inp * 4\<rfloor>,
                     spawnTime = nowMs inp, note_z = SPAWN_Z, isHit = False\<rparr>],
                 lastBeatFrame := frameCount sp + 1\<rparr>
         else sp\<lparr>frameCount := frameCount sp + 1\<rparr>)"
proof (intro conjI)
  show mean: "bassAvg (freqData inp) = Some ((\<Sum>i<5. real (unat (freqData inp ! i))) / 5)"
    using assms(3) by (rule bassAvg_mean)
  show "\<lfloor>randomLane inp * 4\<rfloor> \<in> {0, 1, 2, 3}"
    using assms(4,5) by (rule lane_range)
  show "updateGame inp sp =
      moveStage inp
        (if spawnCondition inp sp
         then sp\<lparr>frameCount := frameCount sp + 1,
                 notesRef := notesRef sp @
                   [\<lparr>note_id = freshId inp, lane = \<lfloor>randomLane inp * 4\<rfloor>,
                     spawnTime = nowMs inp, note_z = SPAWN_Z, isHit = False\<rparr>],
                 lastBeatFrame := frameCount sp + 1\<rparr>
         else sp\<lparr>frameCount := frameCount sp + 1\<rparr>)"
    using assms(1,2) mean
    by (simp add: updateGame_def spawnStage_def beatDetected_def spawnCondition_def)
qed

text \<open>The theorem at the peak of frame 16, after fifteen quiet frames: the condition
  holds, and the frame publishes one note, in lane \<open>2\<close>, one step past the spawn depth.\<close>

theorem C7_spawner_witness:
  "playing (loudFrame ''note-a'') \<and> audioReady quietStart \<and>
   5 \<le> length (freqData (loudFrame ''note-a'')) \<and>
   0 \<le> randomLane (loudFrame ''note-a'') \<and> randomLane (loudFrame ''note-a'') < 1 \<and>
   spawnCondition (loudFrame ''note-a'') quietStart \<and>
   bassAvg (freqData (loudFrame ''note-a'')) = Some 255 \<and>
   notesRef (updateGame (loudFrame ''note-a'') quietStart)
     = [\<lparr>note_id = ''note-a'', lane = 2, spawnTime = 0, note_z = - 975, isHit = False\<rparr>] \<and>
   lastBeatFrame (updateGame (loudFrame ''note-a'') quietStart) = 16"
proof -
  have qs: "quietStart = \<lparr>notesRef = [], lastBeatFrame = 0, frameCount = 15, audioReady = True\<rparr>"
    unfolding quietStart_def by code_simp
  have pre: "playing (loudFrame ''note-a'')" "audioReady quietStart"
    "5 \<le> length (freqData (loudFrame ''note-a''))"
    "0 \<le> randomLane (loudFrame ''note-a'')" "randomLane (loudFrame ''note-a'') < 1"
    by (simp_all add: loudFrame_def qs)
  have cond: "spawnCondition (loudFrame ''note-a'') quietStart"
    by (simp add: spawnCondition_def loudFrame_def qs BEAT_THRESHOLD_def COOLDOWN_FRAMES_def
        lessThan_nat_numeral lessThan_Suc)
  from C7_spawner [OF pre] cond
  have "bassAvg (freqData (loudFrame ''note-a'')) = Some 255"
    and "notesRef (updateGame (loudFrame ''note-a'') quietStart)
     = [\<lparr>note_id = ''note-a'', lane = 2, spawnTime = 0, note_z = - 975, isHit = False\<rparr>]"
    and "lastBeatFrame (updateGame (loudFrame ''note-a'') quietStart) = 16"
    by (simp_all add: loudFrame_def qs moveStage_def moveNote_def SPAWN_Z_def SPEED_def
        DESPAWN_Z_def lessThan_nat_numeral lessThan_Suc)
  with pre cond show ?thesis by simp
qed

text \<open>
  The claim as stated fails at a spacing of exactly the cooldown: the peak at frame 31
  comes fifteen frames after the spawn at frame 16 and has the mean \<open>255\<close>, yet it spawns
  nothing; the only note is the first peak's.
\<close>

theorem C7_counterexample:
  "map note_id (notesRef (frames peaksFifteenApart (initialSpawner True))) = [''note-a''] \<and>
   lastBeatFrame (frames peaksFifteenApart (initialSpawner True)) = 16 \<and>
   frameCount (frames peaksFifteenApart (initialSpawner True)) = 31 \<and>
   bassAvg (freqData (loudFrame ''note-b'')) = Some 255 \<and>
   COOLDOWN_FRAMES \<le> 31 - 16"
  unfolding peaksFifteenApart_def by code_simp

section \<open>Note scoring\<close>

lemma noteScores_append [simp]: "noteScores (xs @ ys) = noteScores xs @ noteScores ys"
  by (induction xs rule: noteScores.induct) simp_all

lemma gameStep_same: "noteScores acts = [] \<Longrightarrow> gamePart s' = gamePart s \<Longrightarrow> gameStep acts s s'"
  by (simp add: gameStep_def)

lemma gamePart_simple [simp]:
  "gamePart (togglePlay s) = gamePart s"
  "gamePart (handleTranslate a b s) = gamePart s"
  "gamePart (translateResolved r s) = gamePart s"
  "gamePart (closeDefinition t s) = gamePart s"
  "gamePart (confirmRecenter s) = gamePart s"
  "gamePart (handleEnterVR s) = gamePart s"
  "gamePart (handleExitVRMode s) = gamePart s"
  "gamePart (handleExit s) = gamePart s"
  "gamePart (onTouchEnd s) = gamePart s"
  by (simp_all add: gamePart_def togglePlay_def handleTranslate_def translateResolved_def
      closeDefinition_def confirmRecenter_def Let_def handleEnterVR_def handleExitVRMode_def
      handleExit_def onTouchEnd_def)

lemma gamePart_updates [simp]:
  "gamePart (s\<lparr>isDragging := b\<rparr>) = gamePart s"
  "gamePart (s\<lparr>isSeeking := b\<rparr>) = gamePart s"
  "gamePart (s\<lparr>playerConfig := c\<rparr>) = gamePart s"
  "gamePart (s\<lparr>showSettingsOverlay := b\<rparr>) = gamePart s"
  "gamePart (s\<lparr>isCalibrationMode := b\<rparr>) = gamePart s"
  "gamePart (s\<lparr>dwellProgress := p\<rparr>) = gamePart s"
  "gamePart (s\<lparr>lastHoverTime := t\<rparr>) = gamePart s"
  "gamePart (s\<lparr>hoveredWord := h\<rparr>) = gamePart s"
  by (simp_all add: gamePart_def)

lemma gamePart_inputs [simp]:
  "gamePart (deviceorientation e l s) = gamePart s"
  "gamePart (onPointerDown p s) = gamePart s"
  "gamePart (onPointerMove p s) = gamePart s"
  "gamePart (onTouchStart d s) = gamePart s"
  "gamePart (onTouchMove d s) = gamePart s"
  by (simp_all add: gamePart_def deviceorientation_def handleOrientation_def onPointerDown_def
      onPointerMove_def onTouchStart_def onTouchMove_def Let_def split: option.split)

lemma gameStep_clickEmpty: "gameStep (fst (clickEmpty s)) s (snd (clickEmpty s))"
  by (simp add: clickEmpty_def gameStep_def)

lemma gameStep_clickAction: "gameStep (fst (clickAction a s)) s (snd (clickAction a s))"
  by (simp add: clickAction_def gameStep_def)

lemma gameStep_clickNote: "gameStep (fst (clickNote n s)) s (snd (clickNote n s))"
  by (simp add: clickNote_def gameStep_def scoredOnce_def mult.commute)

lemma gameStep_clickWord: "gameStep (fst (clickWord a b t s)) s (snd (clickWord a b t s))"
  by (simp add: clickWord_def gameStep_def)

lemma gameStep_clickElement: "gameStep (fst (clickElement el t s)) s (snd (clickElement el t s))"
  by (simp add: clickElement_def gameStep_clickAction gameStep_clickNote gameStep_clickWord
      gameStep_clickEmpty split: option.split)

lemma gameStep_handleScreenClick:
  "gameStep (fst (handleScreenClick w t s)) s (snd (handleScreenClick w t s))"
  by (simp add: handleScreenClick_def gameStep_clickElement gameStep_clickEmpty
      split: option.split) (simp add: gameStep_def)

lemma gameStep_frame:
  "gameStep acts s s' \<Longrightarrow> gamePart s'' = gamePart s' \<Longrightarrow> gameStep acts s s''"
  by (simp add: gameStep_def gamePart_def split: list.splits)

lemma gameStep_onPointerUp: "gameStep (fst (onPointerUp w t s)) s (snd (onPointerUp w t s))"
proof -
  have "gameStep (fst (handleScreenClick w t s)) s ((snd (handleScreenClick w t s))\<lparr>isDragging := False\<rparr>)"
    using gameStep_handleScreenClick by (rule gameStep_frame) simp
  then show ?thesis
    by (simp add: onPointerUp_def Let_def) (simp add: gameStep_def)
qed

lemma gameStep_gazeNote: "gameStep (fst (gazeNote el s)) s (snd (gazeNote el s))"
  by (simp add: gazeNote_def gameStep_def scoredOnce_def mult.commute split: option.split)

lemma gazeDwell_game [simp]:
  "noteScores (fst (gazeDwell a b t s)) = []" "gamePart (snd (gazeDwell a b t s)) = gamePart s"
  by (simp_all add: gazeDwell_def Let_def)

lemma gazeWordHit_game [simp]:
  "noteScores (fst (gazeWordHit a b t s)) = []"
  "gamePart (snd (gazeWordHit a b t s)) = gamePart s"
  by (simp_all add: gazeWordHit_def)

lemma gazeWordMiss_game [simp]:
  "noteScores (fst (gazeWordMiss s)) = []" "gamePart (snd (gazeWordMiss s)) = gamePart s"
  by (simp_all add: gazeWordMiss_def)

lemma gazeWord_game [simp]:
  "noteScores (fst (gazeWord el t s)) = []" "gamePart (snd (gazeWord el t s)) = gamePart s"
  by (simp_all add: gazeWord_def split: option.split)

lemma gameStep_checkGaze: "gameStep (fst (checkGaze w t s)) s (snd (checkGaze w t s))"
proof (cases "probe w (mode (playerConfig s))")
  case None
  then show ?thesis by (simp add: checkGaze_def gameStep_def)
next
  case (Some el)
  have "gameStep (fst (gazeNote el s)) s (snd (gazeWord el t (snd (gazeNote el s))))"
    using gameStep_gazeNote by (rule gameStep_frame) simp
  then show ?thesis using Some by (simp add: checkGaze_def gameStep_def)
qed

lemma gameStep_gazeTick: "gameStep (fst (gazeTick w t s)) s (snd (gazeTick w t s))"
  by (simp add: gazeTick_def gameStep_checkGaze) (simp add: gameStep_def)

lemma gameStep_handleKeyDown: "gameStep (fst (handleKeyDown k s)) s (snd (handleKeyDown k s))"
  by (simp add: handleKeyDown_def gameStep_def)

lemma gameStep_step: "gameStep (fst (step ev s)) s (snd (step ev s))"
  by (cases ev)
    (simp_all add: gameStep_onPointerUp gameStep_gazeTick gameStep_handleKeyDown gameStep_same)

lemma run_game:
  "distinct (noteScores (fst (run evs s))) \<and>
   set (noteScores (fst (run evs s))) \<inter> hitObjects s = {} \<and>
   hitObjects (snd (run evs s)) = hitObjects s \<union> set (noteScores (fst (run evs s))) \<and>
   gameStats (snd (run evs s))
     = (scoredOnce ^^ length (noteScores (fst (run evs s)))) (gameStats s)"
proof (induction evs arbitrary: s)
  case Nil
  show ?case by simp
next
  case (Cons ev evs)
  let ?s1 = "snd (step ev s)"
  note ih = Cons.IH [of ?s1]
  have st: "gameStep (fst (step ev s)) s ?s1" by (rule gameStep_step)
  show ?case
  proof (cases "noteScores (fst (step ev s))")
    case Nil
    with st have "gamePart ?s1 = gamePart s" by (simp add: gameStep_def)
    then have "hitObjects ?s1 = hitObjects s" "gameStats ?s1 = gameStats s"
      by (simp_all add: gamePart_def)
    with ih Nil show ?thesis by simp
  next
    case (Cons n ns)
    with st have ns: "ns = []" and n: "n \<notin> hitObjects s"
      and g: "gameStats ?s1 = scoredOnce (gameStats s)"
      and h: "hitObjects ?s1 = insert n (hitObjects s)"
      by (simp_all add: gameStep_def split: list.splits)
    from ih h have "n \<notin> set (noteScores (fst (run evs ?s1)))" by auto
    with ih n g h Cons ns show ?thesis by (auto simp: funpow_swap1)
  qed
qed

lemma combo_funpow: "combo ((scoredOnce ^^ k) g) = combo g + int k"
  by (induction k) (simp_all add: scoredOnce_def)

lemma combo_reachable: "0 \<le> combo (gameStats (snd (run evs (handleStartPlay c cfg s0))))"
proof -
  have "combo (gameStats (handleStartPlay c cfg s0)) = 0"
    by (simp add: handleStartPlay_def handleEnterVR_def Let_def)
  then show ?thesis
    using run_game [of evs "handleStartPlay c cfg s0"] by (simp add: combo_funpow)
qed

lemma scoredOnce_scoredAs: "0 \<le> combo g \<Longrightarrow> scoredAs g (scoredOnce g)"
  by (simp add: scoredAs_def scoredOnce_def)

lemma noteScores_mem: "n \<in> set (noteScores acts) \<longleftrightarrow> NoteScore n \<in> set acts"
  by (induction acts rule: noteScores.induct) auto

lemma gameStep_scored:
  "gameStep acts s s' \<Longrightarrow> NoteScore n \<in> set acts \<Longrightarrow>
   gameStats s' = scoredOnce (gameStats s) \<and> n \<notin> hitObjects s"
  using noteScores_mem [of n acts]
  by (cases "noteScores acts") (auto simp: gameStep_def split: list.splits)

text \<open>
  C10. In every state a session can reach, a scoring update made by the click path or by
  the gaze path adds \<open>100 + 10 * combo\<close> to the score, adds \<open>1\<close> to the combo and sets the
  best combo to the maximum of its old value and the new combo; after it the best combo
  is at least the combo and the score is strictly larger than before.
\<close>

theorem C10_scoring_update:
  assumes "s = snd (run evs (handleStartPlay itemConfigured config s0))"
  shows "(NoteScore n \<in> set (fst (handleScreenClick w now s)) \<longrightarrow>
            scoredAs (gameStats s) (gameStats (snd (handleScreenClick w now s)))) \<and>
         (NoteScore n \<in> set (fst (checkGaze w now s)) \<longrightarrow>
            scoredAs (gameStats s) (gameStats (snd (checkGaze w now s))))"
proof -
  have "0 \<le> combo (gameStats s)"
    unfolding assms by (rule combo_reachable)
  then have "scoredAs (gameStats s) (scoredOnce (gameStats s))"
    by (rule scoredOnce_scoredAs)
  then show ?thesis
    using gameStep_scored [OF gameStep_handleScreenClick, of n w now s]
      gameStep_scored [OF gameStep_checkGaze, of n w now s]
    by auto
qed

lemma note_element_consumed:
  assumes "probe w (mode (playerConfig s)) = Some el" and "closestGameNote el = Some (Some n)"
    and "n \<in> hitObjects s"
  shows "gamePart (snd (handleScreenClick w now s)) = gamePart s"
    and "gamePart (snd (checkGaze w now s)) = gamePart s"
proof -
  have "gamePart (snd (clickNote (Some n) s)) = gamePart s"
    using assms(3) by (simp add: clickNote_def orEmpty_def)
  moreover have "gamePart (snd (clickAction a s)) = gamePart s" for a
    by (simp add: clickAction_def)
  ultimately show "gamePart (snd (handleScreenClick w now s)) = gamePart s"
    using assms(1,2)
    by (simp add: handleScreenClick_def clickElement_def split: option.split)
  have "gamePart (snd (gazeNote el s)) = gamePart s"
    using assms(2,3) by (simp add: gazeNote_def orEmpty_def)
  then show "gamePart (snd (checkGaze w now s)) = gamePart s"
    using assms(1) by (simp add: checkGaze_def)
qed

text \<open>
  C6. A click or a gaze tick on a note whose id is already in the consumed set leaves the
  statistics unchanged. Over any sequence of session events, a consumed id is never
  scored, consumed ids stay consumed, every scored id is consumed, no id is scored twice,
  and the statistics change by exactly one scoring update per scored id.
\<close>

theorem C6_note_scored_once:
  "(probe w (mode (playerConfig s)) = Some el \<and> closestGameNote el = Some (Some n)
      \<and> n \<in> hitObjects s \<longrightarrow>
      gameStats (snd (handleScreenClick w now s)) = gameStats s \<and>
      gameStats (snd (checkGaze w now s)) = gameStats s) \<and>
   (n \<in> hitObjects s \<longrightarrow> NoteScore n \<notin> set (fst (run evs s))) \<and>
   hitObjects s \<subseteq> hitObjects (snd (run evs s)) \<and>
   set (noteScores (fst (run evs s))) \<subseteq> hitObjects (snd (run evs s)) \<and>
   distinct (noteScores (fst (run evs s))) \<and>
   gameStats (snd (run evs s))
     = (scoredOnce ^^ length (noteScores (fst (run evs s)))) (gameStats s)"
proof -
  have "gameStats (snd (handleScreenClick w now s)) = gameStats s"
    and "gameStats (snd (checkGaze w now s)) = gameStats s"
    if "probe w (mode (playerConfig s)) = Some el" "closestGameNote el = Some (Some n)"
      "n \<in> hitObjects s"
    using note_element_consumed [OF that, of now] by (simp_all add: gamePart_def)
  moreover have "NoteScore n \<notin> set (fst (run evs s))" if "n \<in> hitObjects s"
    using run_game [of evs s] that noteScores_mem [of n "fst (run evs s)"] by auto
  ultimately show ?thesis using run_game [of evs s] by auto
qed

text \<open>The theorem at the session in which the gaze scores \<open>note-1\<close>, two clicks hit it
  again, and \<open>note-2\<close> is then clicked and gazed at.\<close>

theorem C6_note_scored_once_witness:
  "probe (windowShowing (noteElement ''note-1'')) (mode (playerConfig noteHitSession))
     = Some (noteElement ''note-1'') \<and>
   closestGameNote (noteElement ''note-1'') = Some (Some ''note-1'') \<and>
   ''note-1'' \<in> hitObjects noteHitSession \<and>
   gameStats (snd (handleScreenClick (windowShowing (noteElement ''note-1'')) 1100
                     noteHitSession)) = gameStats noteHitSession \<and>
   gameStats (snd (checkGaze (windowShowing (noteElement ''note-1'')) 1100 noteHitSession))
     = gameStats noteHitSession \<and>
   NoteScore ''note-1'' \<notin> set (fst (run (tl noteClicks) noteHitSession)) \<and>
   noteScores (fst (run noteClicks gameSession)) = [''note-1'', ''note-2''] \<and>
   distinct (noteScores (fst (run noteClicks gameSession))) \<and>
   gameStats (snd (run noteClicks gameSession)) = \<lparr>score = 210, combo = 2, maxCombo = 2\<rparr>"
proof -
  have pre: "probe (windowShowing (noteElement ''note-1'')) (mode (playerConfig noteHitSession))
     = Some (noteElement ''note-1'')"
    "closestGameNote (noteElement ''note-1'') = Some (Some ''note-1'')"
    "''note-1'' \<in> hitObjects noteHitSession"
    by code_simp+
  have vals: "noteScores (fst (run noteClicks gameSession)) = [''note-1'', ''note-2'']"
    "scoredOnce (scoredOnce (gameStats gameSession))
       = \<lparr>score = 210, combo = 2, maxCombo = 2\<rparr>"
    by code_simp+
  from C6_note_scored_once [of "windowShowing (noteElement ''note-1'')" noteHitSession
      "noteElement ''note-1''" "''note-1''" 1100 "tl noteClicks"] pre
  have "gameStats (snd (handleScreenClick (windowShowing (noteElement ''note-1'')) 1100
                     noteHitSession)) = gameStats noteHitSession"
    and "gameStats (snd (checkGaze (windowShowing (noteElement ''note-1'')) 1100 noteHitSession))
     = gameStats noteHitSession"
    and "NoteScore ''note-1'' \<notin> set (fst (run (tl noteClicks) noteHitSession))"
    by simp_all
  moreover from C6_note_scored_once [of "windowShowing plainElement" gameSession plainElement
      "''note-1''" 0 noteClicks] vals
  have "distinct (noteScores (fst (run noteClicks gameSession)))"
    and "gameStats (snd (run noteClicks gameSession)) = \<lparr>score = 210, combo = 2, maxCombo = 2\<rparr>"
    by simp_all
  ultimately show ?thesis using pre vals by simp
qed

text \<open>The theorem at the session that has scored \<open>note-1\<close>: a click and a gaze tick on
  \<open>note-2\<close> each take the statistics from \<open>(100, 1, 1)\<close> to \<open>(210, 2, 2)\<close>.\<close>

theorem C10_scoring_update_witness:
  "noteHitSession
     = snd (run [EvGazeTick (windowShowing (noteElement ''note-1'')) 1000]
              (handleStartPlay True gameConfig initialApp)) \<and>
   gameStats noteHitSession = \<lparr>score = 100, combo = 1, maxCombo = 1\<rparr> \<and>
   NoteScore ''note-2''
     \<in> set (fst (handleScreenClick (windowShowing (noteElement ''note-2'')) 1100 noteHitSession)) \<and>
   scoredAs (gameStats noteHitSession)
     (gameStats (snd (handleScreenClick (windowShowing (noteElement ''note-2'')) 1100
                        noteHitSession))) \<and>
   gameStats (snd (handleScreenClick (windowShowing (noteElement ''note-2'')) 1100 noteHitSession))
     = \<lparr>score = 210, combo = 2, maxCombo = 2\<rparr> \<and>
   NoteScore ''note-2''
     \<in> set (fst (checkGaze (windowShowing (noteElement ''note-2'')) 1100 noteHitSession)) \<and>
   scoredAs (gameStats noteHitSession)
     (gameStats (snd (checkGaze (windowShowing (noteElement ''note-2'')) 1100 noteHitSession))) \<and>
   gameStats (snd (checkGaze (windowShowing (noteElement ''note-2'')) 1100 noteHitSession))
     = \<lparr>score = 210, combo = 2, maxCombo = 2\<rparr>"
proof -
  have reach: "noteHitSession
     = snd (run [EvGazeTick (windowShowing (noteElement ''note-1'')) 1000]
              (handleStartPlay True gameConfig initialApp))"
    by (simp only: noteHitSession_def gameSession_def)
  have click: "NoteScore ''note-2''
     \<in> set (fst (handleScreenClick (windowShowing (noteElement ''note-2'')) 1100 noteHitSession))"
    and gaze: "NoteScore ''note-2''
     \<in> set (fst (checkGaze (windowShowing (noteElement ''note-2'')) 1100 noteHitSession))"
    and vals: "gameStats noteHitSession = \<lparr>score = 100, combo = 1, maxCombo = 1\<rparr>"
      "gameStats (snd (handleScreenClick (windowShowing (noteElement ''note-2'')) 1100
                        noteHitSession)) = \<lparr>score = 210, combo = 2, maxCombo = 2\<rparr>"
      "gameStats (snd (checkGaze (windowShowing (noteElement ''note-2'')) 1100 noteHitSession))
     = \<lparr>score = 210, combo = 2, maxCombo = 2\<rparr>"
    by code_simp+
  from C10_scoring_update [OF reach, of "''note-2''" "windowShowing (noteElement ''note-2'')" 1100]
    click gaze
  have "scoredAs (gameStats noteHitSession)
     (gameStats (snd (handleScreenClick (windowShowing (noteElement ''note-2'')) 1100
                        noteHitSession)))"
    and "scoredAs (gameStats noteHitSession)
     (gameStats (snd (checkGaze (windowShowing (noteElement ''note-2'')) 1100 noteHitSession)))"
    by simp_all
  with reach click gaze vals show ?thesis by simp
qed

section \<open>Dwell\<close>

lemma lookups_append [simp]: "lookups (xs @ ys) = lookups xs @ lookups ys"
  by (induction xs rule: lookups.induct) simp_all

lemma gazeNote_fields [simp]:
  "hoveredWord (snd (gazeNote el s)) = hoveredWord s"
  "lastHoverTime (snd (gazeNote el s)) = lastHoverTime s"
  "dwellProgress (snd (gazeNote el s)) = dwellProgress s"
  "isTranslating (snd (gazeNote el s)) = isTranslating s"
  "wordDefinition (snd (gazeNote el s)) = wordDefinition s"
  "playerConfig (snd (gazeNote el s)) = playerConfig s"
  "lookups (fst (gazeNote el s)) = []"
  by (simp_all add: gazeNote_def split: option.split)

lemma dwellFires_gazeNote [simp]: "dwellFires wd now (snd (gazeNote el s)) = dwellFires wd now s"
  by (simp add: dwellFires_def)

lemma progress_full:
  "(1 \<le> real_of_int e / real_of_int DWELL_TIME_MS) = (DWELL_TIME_MS \<le> e)"
  by (simp add: DWELL_TIME_MS_def)

lemma progress_clamp:
  "0 \<le> e \<Longrightarrow> min 1 (real_of_int e / real_of_int DWELL_TIME_MS) = clamp01 (real_of_int e / 1200)"
  by (simp add: DWELL_TIME_MS_def clamp01_def)

lemma gazeDwell_fire:
  "dwellFires wd now s \<Longrightarrow>
   fst (gazeDwell wd sn now s) = [WordLookup wd sn] \<and>
   dwellProgress (snd (gazeDwell wd sn now s)) = 0 \<and>
   lastHoverTime (snd (gazeDwell wd sn now s)) = 0 \<and>
   hoveredWord (snd (gazeDwell wd sn now s)) = hoveredWord s \<and>
   isTranslating (snd (gazeDwell wd sn now s)) \<and>
   playerConfig (snd (gazeDwell wd sn now s)) = playerConfig s"
  by (simp add: gazeDwell_def Let_def progress_full dwellFires_def handleTranslate_def
      del: of_int_diff)

lemma gazeDwell_hold:
  "\<not> dwellFires wd now s \<Longrightarrow>
   fst (gazeDwell wd sn now s) = [] \<and>
   dwellProgress (snd (gazeDwell wd sn now s))
     = min 1 (real_of_int (now - lastHoverTime s) / real_of_int DWELL_TIME_MS) \<and>
   lastHoverTime (snd (gazeDwell wd sn now s)) = lastHoverTime s \<and>
   hoveredWord (snd (gazeDwell wd sn now s)) = hoveredWord s \<and>
   isTranslating (snd (gazeDwell wd sn now s)) = isTranslating s \<and>
   wordDefinition (snd (gazeDwell wd sn now s)) = wordDefinition s \<and>
   playerConfig (snd (gazeDwell wd sn now s)) = playerConfig s"
  by (simp add: gazeDwell_def Let_def progress_full dwellFires_def del: of_int_diff)

lemma checkGaze_dwell:
  assumes "probe w (mode (playerConfig s)) = Some el" and "closestWord el = Some (wd, sn)"
    and "wd \<noteq> []" and "hoveredWord s = Some wd" and "0 < lastHoverTime s"
  shows "dwellFires wd now s \<Longrightarrow>
           lookups (fst (checkGaze w now s)) = [(wd, orEmpty sn)] \<and>
           dwellProgress (snd (checkGaze w now s)) = 0 \<and>
           lastHoverTime (snd (checkGaze w now s)) = 0 \<and>
           hoveredWord (snd (checkGaze w now s)) = Some wd"
    and "\<not> dwellFires wd now s \<Longrightarrow>
           lookups (fst (checkGaze w now s)) = [] \<and>
           dwellProgress (snd (checkGaze w now s))
             = min 1 (real_of_int (now - lastHoverTime s) / real_of_int DWELL_TIME_MS) \<and>
           lastHoverTime (snd (checkGaze w now s)) = lastHoverTime s \<and>
           hoveredWord (snd (checkGaze w now s)) = Some wd \<and>
           isTranslating (snd (checkGaze w now s)) = isTranslating s \<and>
           wordDefinition (snd (checkGaze w now s)) = wordDefinition s \<and>
           playerConfig (snd (checkGaze w now s)) = playerConfig s"
proof -
  let ?s1 = "snd (gazeNote el s)"
  have eq: "checkGaze w now s
      = (fst (gazeNote el s) @ fst (gazeDwell wd (orEmpty sn) now ?s1),
         snd (gazeDwell wd (orEmpty sn) now ?s1))"
    using assms by (simp add: checkGaze_def gazeWord_def gazeWordHit_def)
  show "lookups (fst (checkGaze w now s)) = [(wd, orEmpty sn)] \<and>
           dwellProgress (snd (checkGaze w now s)) = 0 \<and>
           lastHoverTime (snd (checkGaze w now s)) = 0 \<and>
           hoveredWord (snd (checkGaze w now s)) = Some wd"
    if "dwellFires wd now s"
    using gazeDwell_fire [of wd now ?s1 "orEmpty sn"] that assms(4) by (simp add: eq)
  show "lookups (fst (checkGaze w now s)) = [] \<and>
           dwellProgress (snd (checkGaze w now s))
             = min 1 (real_of_int (now - lastHoverTime s) / real_of_int DWELL_TIME_MS) \<and>
           lastHoverTime (snd (checkGaze w now s)) = lastHoverTime s \<and>
           hoveredWord (snd (checkGaze w now s)) = Some wd \<and>
           isTranslating (snd (checkGaze w now s)) = isTranslating s \<and>
           wordDefinition (snd (checkGaze w now s)) = wordDefinition s \<and>
           playerConfig (snd (checkGaze w now s)) = playerConfig s"
    if "\<not> dwellFires wd now s"
    using gazeDwell_hold [of wd now ?s1 "orEmpty sn"] that assms(4)
    by (simp add: eq del: of_int_diff)
qed

lemma checkGaze_enter:
  assumes "probe w (mode (playerConfig s)) = Some el" and "closestWord el = Some (wd, sn)"
    and "wd \<noteq> []" and "hoveredWord s \<noteq> Some wd"
  shows "lookups (fst (checkGaze w now s)) = [] \<and>
         dwellProgress (snd (checkGaze w now s)) = 0 \<and>
         lastHoverTime (snd (checkGaze w now s)) = now \<and>
         hoveredWord (snd (checkGaze w now s)) = Some wd"
  using assms by (simp add: checkGaze_def gazeWord_def gazeWordHit_def)

lemma checkGaze_leave:
  assumes "showsNoWord w (mode (playerConfig s))" and "hoveredWord s = Some h" and "h \<noteq> []"
  shows "lookups (fst (checkGaze w now s)) = [] \<and>
         dwellProgress (snd (checkGaze w now s)) = 0 \<and>
         hoveredWord (snd (checkGaze w now s)) = None"
  using assms
  by (auto simp: checkGaze_def showsNoWord_def gazeWord_def gazeWordMiss_def truthy_def
      split: option.splits)

lemma checkGaze_once:
  assumes "showsWord w (mode (playerConfig s)) wd"
  shows "playerConfig (snd (checkGaze w now s)) = playerConfig s \<and>
         (lookups (fst (checkGaze w now s)) = [] \<or>
          length (lookups (fst (checkGaze w now s))) = 1 \<and>
          hoveredWord (snd (checkGaze w now s)) = Some wd \<and>
          lastHoverTime (snd (checkGaze w now s)) = 0)"
proof -
  from assms obtain el sn where el: "probe w (mode (playerConfig s)) = Some el"
    and cw: "closestWord el = Some (wd, sn)"
    by (auto simp: showsWord_def split: option.splits)
  show ?thesis
  proof (cases "wd \<noteq> [] \<and> hoveredWord s = Some wd \<and> 0 < lastHoverTime s")
    case True
    then show ?thesis
      using checkGaze_dwell [OF el cw, of now] gazeDwell_fire [of wd now "snd (gazeNote el s)" "orEmpty sn"]
      by (cases "dwellFires wd now s") (simp_all add: checkGaze_def gazeWord_def gazeWordHit_def cw el)
  next
    case False
    then show ?thesis
      using el cw by (auto simp: checkGaze_def gazeWord_def gazeWordHit_def)
  qed
qed

lemma dwellCells_simple [simp]:
  "dwellCells (togglePlay s) = dwellCells s"
  "dwellCells (handleTranslate a b s) = dwellCells s"
  "dwellCells (translateResolved r s) = dwellCells s"
  "dwellCells (confirmRecenter s) = dwellCells s"
  "dwellCells (handleEnterVR s) = dwellCells s"
  "dwellCells (handleExitVRMode s) = dwellCells s"
  "dwellCells (handleExit s) = dwellCells s"
  "dwellCells (onTouchEnd s) = dwellCells s"
  by (simp_all add: dwellCells_def togglePlay_def handleTranslate_def translateResolved_def
      confirmRecenter_def Let_def handleEnterVR_def handleExitVRMode_def
      handleExit_def onTouchEnd_def)

lemma dwellCells_updates [simp]:
  "dwellCells (s\<lparr>isDragging := b\<rparr>) = dwellCells s"
  "dwellCells (s\<lparr>isSeeking := b\<rparr>) = dwellCells s"
  "dwellCells (s\<lparr>playerConfig := c\<rparr>) = dwellCells s"
  "dwellCells (s\<lparr>showSettingsOverlay := b\<rparr>) = dwellCells s"
  "dwellCells (s\<lparr>isCalibrationMode := b\<rparr>) = dwellCells s"
  "dwellCells (s\<lparr>hitObjects := h\<rparr>) = dwellCells s"
  "dwellCells (s\<lparr>gameStats := g\<rparr>) = dwellCells s"
  by (simp_all add: dwellCells_def)

lemma dwellCells_inputs [simp]:
  "dwellCells (deviceorientation e l s) = dwellCells s"
  "dwellCells (onPointerDown p s) = dwellCells s"
  "dwellCells (onPointerMove p s) = dwellCells s"
  "dwellCells (onTouchStart d s) = dwellCells s"
  "dwellCells (onTouchMove d s) = dwellCells s"
  by (simp_all add: dwellCells_def deviceorientation_def handleOrientation_def onPointerDown_def
      onPointerMove_def onTouchStart_def onTouchMove_def Let_def split: option.split)

lemma lookupBusy_simple [simp]:
  "lookupBusy (togglePlay s) = lookupBusy s"
  "lookupBusy (confirmRecenter s) = lookupBusy s"
  "lookupBusy (handleEnterVR s) = lookupBusy s"
  "lookupBusy (handleExitVRMode s) = lookupBusy s"
  "lookupBusy (handleExit s) = lookupBusy s"
  "lookupBusy (onTouchEnd s) = lookupBusy s"
  "lookupBusy (translateResolved r s)"
  by (simp_all add: lookupBusy_def togglePlay_def translateResolved_def
      confirmRecenter_def Let_def handleEnterVR_def handleExitVRMode_def
      handleExit_def onTouchEnd_def)

lemma lookupBusy_updates [simp]:
  "lookupBusy (s\<lparr>isDragging := b\<rparr>) = lookupBusy s"
  "lookupBusy (s\<lparr>isSeeking := b\<rparr>) = lookupBusy s"
  "lookupBusy (s\<lparr>playerConfig := c\<rparr>) = lookupBusy s"
  "lookupBusy (s\<lparr>showSettingsOverlay := b\<rparr>) = lookupBusy s"
  "lookupBusy (s\<lparr>isCalibrationMode := b\<rparr>) = lookupBusy s"
  "lookupBusy (s\<lparr>hitObjects := h\<rparr>) = lookupBusy s"
  "lookupBusy (s\<lparr>gameStats := g\<rparr>) = lookupBusy s"
  by (simp_all add: lookupBusy_def)

lemma lookupBusy_inputs [simp]:
  "lookupBusy (deviceorientation e l s) = lookupBusy s"
  "lookupBusy (onPointerDown p s) = lookupBusy s"
  "lookupBusy (onPointerMove p s) = lookupBusy s"
  "lookupBusy (onTouchStart d s) = lookupBusy s"
  "lookupBusy (onTouchMove d s) = lookupBusy s"
  by (simp_all add: lookupBusy_def deviceorientation_def handleOrientation_def onPointerDown_def
      onPointerMove_def onTouchStart_def onTouchMove_def Let_def split: option.split)

lemma clickEmpty_kept:
  "dwellCells (snd (clickEmpty s)) = dwellCells s"
  "lookupBusy (snd (clickEmpty s)) = lookupBusy s"
  "lookups (fst (clickEmpty s)) = []"
  by (simp_all add: clickEmpty_def)

lemma clickAction_kept:
  "dwellCells (snd (clickAction a s)) = dwellCells s"
  "lookupBusy (snd (clickAction a s)) = lookupBusy s"
  "lookups (fst (clickAction a s)) = []"
  by (simp_all add: clickAction_def)

lemma clickNote_kept:
  "dwellCells (snd (clickNote n s)) = dwellCells s"
  "lookupBusy (snd (clickNote n s)) = lookupBusy s"
  "lookups (fst (clickNote n s)) = []"
  by (simp_all add: clickNote_def)

lemma clickWord_kept:
  "DefinitionClose \<notin> set (fst (clickWord a b t s)) \<Longrightarrow>
     dwellCells (snd (clickWord a b t s)) = dwellCells s"
  "DefinitionClose \<notin> set (fst (clickWord a b t s)) \<Longrightarrow> lookupBusy s \<Longrightarrow>
     lookupBusy (snd (clickWord a b t s)) \<and> lookups (fst (clickWord a b t s)) = []"
  by (auto simp: clickWord_def lookupBusy_def split: if_splits)

lemma clickElement_kept:
  "DefinitionClose \<notin> set (fst (clickElement el t s)) \<Longrightarrow>
     dwellCells (snd (clickElement el t s)) = dwellCells s"
  "DefinitionClose \<notin> set (fst (clickElement el t s)) \<Longrightarrow> lookupBusy s \<Longrightarrow>
     lookupBusy (snd (clickElement el t s)) \<and> lookups (fst (clickElement el t s)) = []"
  by (auto simp: clickElement_def clickEmpty_kept clickAction_kept clickNote_kept
      clickWord_kept split: option.splits)

lemma handleScreenClick_kept:
  "DefinitionClose \<notin> set (fst (handleScreenClick w t s)) \<Longrightarrow>
     dwellCells (snd (handleScreenClick w t s)) = dwellCells s"
  "DefinitionClose \<notin> set (fst (handleScreenClick w t s)) \<Longrightarrow> lookupBusy s \<Longrightarrow>
     lookupBusy (snd (handleScreenClick w t s)) \<and> lookups (fst (handleScreenClick w t s)) = []"
  by (simp_all add: handleScreenClick_def clickEmpty_kept clickElement_kept
      split: option.splits if_splits)

lemma onPointerUp_kept:
  "DefinitionClose \<notin> set (fst (onPointerUp w t s)) \<Longrightarrow>
     dwellCells (snd (onPointerUp w t s)) = dwellCells s"
  "DefinitionClose \<notin> set (fst (onPointerUp w t s)) \<Longrightarrow> lookupBusy s \<Longrightarrow>
     lookupBusy (snd (onPointerUp w t s)) \<and> lookups (fst (onPointerUp w t s)) = []"
  by (auto simp: onPointerUp_def Let_def handleScreenClick_kept split: if_splits)

lemma handleKeyDown_kept:
  "dwellCells (snd (handleKeyDown k s)) = dwellCells s"
  "lookupBusy (snd (handleKeyDown k s)) = lookupBusy s"
  "lookups (fst (handleKeyDown k s)) = []"
  by (simp_all add: handleKeyDown_def)

lemma checkGaze_spent:
  assumes "showsWord w (mode (playerConfig s)) wd" and "hoveredWord s = Some wd"
    and "lastHoverTime s \<le> 0"
  shows "lookups (fst (checkGaze w now s)) = [] \<and>
         dwellCells (snd (checkGaze w now s)) = dwellCells s \<and>
         lookupBusy (snd (checkGaze w now s)) = lookupBusy s"
  using assms
  by (auto simp: checkGaze_def showsWord_def gazeWord_def gazeWordHit_def dwellCells_def
      lookupBusy_def split: option.splits)

lemma step_spent:
  assumes "hoveredWord s = Some wd" and "lastHoverTime s \<le> 0" and "keepsDwell wd ev s"
  shows "dwellCells (snd (step ev s)) = dwellCells s \<and> tickLookups ev s = [] \<and>
         (lookupBusy s \<longrightarrow> lookupBusy (snd (step ev s)) \<and> lookups (fst (step ev s)) = [])"
proof (cases ev)
  case (EvGazeTick w now)
  with assms(3) have "showsWord w (mode (playerConfig s)) wd" by (simp add: keepsDwell_def)
  from checkGaze_spent [OF this assms(1,2), of now] EvGazeTick
  show ?thesis by (simp add: gazeTick_def tickLookups_def)
next
  case (EvPointerUp w now)
  with assms(3) have "DefinitionClose \<notin> set (fst (onPointerUp w now s))"
    by (simp add: keepsDwell_def)
  from onPointerUp_kept [OF this] EvPointerUp show ?thesis by (simp add: tickLookups_def)
next
  case (EvCloseDefinition now)
  with assms(3) show ?thesis by (simp add: keepsDwell_def)
qed (simp_all add: tickLookups_def handleKeyDown_kept)

lemma run_spent:
  "hoveredWord s = Some wd \<Longrightarrow> lastHoverTime s \<le> 0 \<Longrightarrow> dwellRun wd evs s \<Longrightarrow>
   gazeLookups evs s = [] \<and> dwellCells (snd (run evs s)) = dwellCells s \<and>
   (lookupBusy s \<longrightarrow> lookups (fst (run evs s)) = [])"
proof (induction evs arbitrary: s)
  case Nil
  show ?case by simp
next
  case (Cons ev evs)
  from Cons.prems have ev: "keepsDwell wd ev s" and rest: "dwellRun wd evs (snd (step ev s))"
    by simp_all
  note st = step_spent [OF Cons.prems(1,2) ev]
  from st Cons.prems(1,2) have sp: "hoveredWord (snd (step ev s)) = Some wd"
    "lastHoverTime (snd (step ev s)) \<le> 0"
    by (simp_all add: dwellCells_def)
  from Cons.IH [OF sp rest] st show ?case by simp
qed

lemma step_dwell_once:
  assumes "keepsDwell wd ev s"
  shows "tickLookups ev s = [] \<or>
         length (tickLookups ev s) = 1 \<and>
         hoveredWord (snd (step ev s)) = Some wd \<and> lastHoverTime (snd (step ev s)) = 0"
proof (cases ev)
  case (EvGazeTick w now)
  with assms have "showsWord w (mode (playerConfig s)) wd" by (simp add: keepsDwell_def)
  from checkGaze_once [OF this, of now] EvGazeTick
  show ?thesis by (simp add: gazeTick_def tickLookups_def)
qed (simp_all add: tickLookups_def)

lemma run_dwell_once: "dwellRun wd evs s \<Longrightarrow> length (gazeLookups evs s) \<le> 1"
proof (induction evs arbitrary: s)
  case Nil
  show ?case by simp
next
  case (Cons ev evs)
  from Cons.prems have ev: "keepsDwell wd ev s" and rest: "dwellRun wd evs (snd (step ev s))"
    by simp_all
  note st = step_dwell_once [OF ev]
  show ?case
  proof (cases "tickLookups ev s = []")
    case True
    with Cons.IH [OF rest] show ?thesis by simp
  next
    case False
    with st have "length (tickLookups ev s) = 1"
      and "hoveredWord (snd (step ev s)) = Some wd" and "lastHoverTime (snd (step ev s)) \<le> 0"
      by simp_all
    with run_spent [OF _ _ rest] show ?thesis by simp
  qed
qed

lemma gazeLookups_no_click:
  "\<not> list_ex isClick evs \<Longrightarrow> gazeLookups evs s = lookups (fst (run evs s))"
proof (induction evs arbitrary: s)
  case Nil
  show ?case by simp
next
  case (Cons ev evs)
  then have "tickLookups ev s = lookups (fst (step ev s))"
    by (cases ev) (simp_all add: tickLookups_def isClick_def handleKeyDown_kept)
  with Cons show ?case by simp
qed

lemma checkGaze_fire_busy:
  assumes "probe w (mode (playerConfig s)) = Some el" and "closestWord el = Some (wd, sn)"
    and "wd \<noteq> []" and "hoveredWord s = Some wd" and "0 < lastHoverTime s"
    and "dwellFires wd now s"
  shows "lookupBusy (snd (checkGaze w now s))"
proof -
  have "snd (checkGaze w now s) = snd (gazeDwell wd (orEmpty sn) now (snd (gazeNote el s)))"
    using assms by (simp add: checkGaze_def gazeWord_def gazeWordHit_def)
  with gazeDwell_fire [of wd now "snd (gazeNote el s)" "orEmpty sn"] assms(6)
  show ?thesis by (simp add: lookupBusy_def)
qed

lemma progress_min:
  "min 1 (real_of_int e / real_of_int DWELL_TIME_MS) = min 1 (real_of_int e / 1200)"
  by (simp add: DWELL_TIME_MS_def)

text \<open>
  C3 (as amended). Let the probe point show a word element with a non-empty word; a
  target is identified by that word. While the word is the hovered one and the timer
  runs, a tick either fires or sets the progress to \<open>min 1 (elapsed / 1200)\<close>, which is
  \<open>clamp01 (elapsed / 1200)\<close> when the time of the tick is not before the start of the
  hover, and which does not decrease from one such tick to a later one. A tick fires
  exactly when the dwell time has passed, no lookup is pending and no definition of that
  same word is shown; it then makes one lookup call, forces the progress to \<open>0\<close> and
  stops the timer, and for the rest of the uninterrupted dwell no further lookup fires,
  by dwell or by click, and the progress stays \<open>0\<close>. A tick on which the word differs
  from the hovered one restarts the timer with progress \<open>0\<close>; a tick on which the probe
  point shows no word resets the progress to \<open>0\<close> and clears the hovered word. Over any
  uninterrupted dwell on one word the gaze ticks fire at most one lookup. A dwell is
  uninterrupted as long as every gaze tick finds the word under the probe point and the
  definition is not closed; events of every other kind may occur in it.
\<close>

theorem C3_dwell:
  assumes "probe w (mode (playerConfig s)) = Some el" and "closestWord el = Some (wd, sn)"
    and "wd \<noteq> []"
  shows
   "(hoveredWord s = Some wd \<and> 0 < lastHoverTime s \<longrightarrow>
       (if dwellFires wd now s
        then lookups (fst (checkGaze w now s)) = [(wd, orEmpty sn)] \<and>
             dwellProgress (snd (checkGaze w now s)) = 0 \<and>
             lastHoverTime (snd (checkGaze w now s)) = 0
        else lookups (fst (checkGaze w now s)) = [] \<and>
             dwellProgress (snd (checkGaze w now s))
               = min 1 (real_of_int (now - lastHoverTime s) / 1200) \<and>
             (lastHoverTime s \<le> now \<longrightarrow>
                dwellProgress (snd (checkGaze w now s))
                  = clamp01 (real_of_int (now - lastHoverTime s) / 1200)) \<and>
             lastHoverTime (snd (checkGaze w now s)) = lastHoverTime s) \<and>
       (now \<le> now' \<and> \<not> dwellFires wd now s
          \<and> \<not> dwellFires wd now' (snd (checkGaze w now s)) \<longrightarrow>
        dwellProgress (snd (checkGaze w now s))
          \<le> dwellProgress (snd (checkGaze w now' (snd (checkGaze w now s))))) \<and>
       (dwellFires wd now s \<and> dwellRun wd evs (snd (checkGaze w now s)) \<longrightarrow>
        lookups (fst (run evs (snd (checkGaze w now s)))) = [] \<and>
        dwellProgress (snd (run evs (snd (checkGaze w now s)))) = 0)) \<and>
    (hoveredWord s \<noteq> Some wd \<longrightarrow>
       lookups (fst (checkGaze w now s)) = [] \<and>
       dwellProgress (snd (checkGaze w now s)) = 0 \<and>
       hoveredWord (snd (checkGaze w now s)) = Some wd \<and>
       lastHoverTime (snd (checkGaze w now s)) = now) \<and>
    (hoveredWord s = Some wd \<and> showsNoWord w' (mode (playerConfig s)) \<longrightarrow>
       lookups (fst (checkGaze w' now s)) = [] \<and>
       dwellProgress (snd (checkGaze w' now s)) = 0 \<and>
       hoveredWord (snd (checkGaze w' now s)) = None) \<and>
    (dwellRun wd evs s \<longrightarrow> length (gazeLookups evs s) \<le> 1)"
proof (intro conjI impI)
  assume h: "hoveredWord s = Some wd \<and> 0 < lastHoverTime s"
  then have hov: "hoveredWord s = Some wd" and pos: "0 < lastHoverTime s" by simp_all
  note dw = checkGaze_dwell [OF assms hov pos, of now]
  have cl: "lastHoverTime s \<le> now \<Longrightarrow>
      min 1 (real_of_int (now - lastHoverTime s) / real_of_int DWELL_TIME_MS)
        = clamp01 (real_of_int (now - lastHoverTime s) / 1200)"
    using progress_clamp [of "now - lastHoverTime s"] by simp
  show "if dwellFires wd now s
        then lookups (fst (checkGaze w now s)) = [(wd, orEmpty sn)] \<and>
             dwellProgress (snd (checkGaze w now s)) = 0 \<and>
             lastHoverTime (snd (checkGaze w now s)) = 0
        else lookups (fst (checkGaze w now s)) = [] \<and>
             dwellProgress (snd (checkGaze w now s))
               = min 1 (real_of_int (now - lastHoverTime s) / 1200) \<and>
             (lastHoverTime s \<le> now \<longrightarrow>
                dwellProgress (snd (checkGaze w now s))
                  = clamp01 (real_of_int (now - lastHoverTime s) / 1200)) \<and>
             lastHoverTime (snd (checkGaze w now s)) = lastHoverTime s"
  proof (cases "dwellFires wd now s")
    case True
    with dw(1) show ?thesis by simp
  next
    case False
    from dw(2) [OF False]
    have p: "dwellProgress (snd (checkGaze w now s))
        = min 1 (real_of_int (now - lastHoverTime s) / real_of_int DWELL_TIME_MS)"
      and r: "lookups (fst (checkGaze w now s)) = []"
        "lastHoverTime (snd (checkGaze w now s)) = lastHoverTime s"
      by simp_all
    from p have "dwellProgress (snd (checkGaze w now s))
        = min 1 (real_of_int (now - lastHoverTime s) / 1200)"
      by (simp only: progress_min)
    moreover from p cl have "lastHoverTime s \<le> now \<longrightarrow>
        dwellProgress (snd (checkGaze w now s))
          = clamp01 (real_of_int (now - lastHoverTime s) / 1200)"
      by (simp del: of_int_diff)
    ultimately show ?thesis using False r by (simp del: of_int_diff)
  qed
  {
    assume m: "now \<le> now' \<and> \<not> dwellFires wd now s
          \<and> \<not> dwellFires wd now' (snd (checkGaze w now s))"
    let ?s1 = "snd (checkGaze w now s)"
    from m dw(2) have s1: "hoveredWord ?s1 = Some wd" "lastHoverTime ?s1 = lastHoverTime s"
      "playerConfig ?s1 = playerConfig s"
      "dwellProgress ?s1 = min 1 (real_of_int (now - lastHoverTime s) / real_of_int DWELL_TIME_MS)"
      by simp_all
    have p1: "probe w (mode (playerConfig ?s1)) = Some el" using assms(1) s1(3) by simp
    have pos1: "0 < lastHoverTime ?s1" using pos s1(2) by simp
    from checkGaze_dwell(2) [OF p1 assms(2,3) s1(1) pos1, of now'] m
    have "dwellProgress (snd (checkGaze w now' ?s1))
        = min 1 (real_of_int (now' - lastHoverTime s) / real_of_int DWELL_TIME_MS)"
      by (simp add: s1(2))
    moreover have "real_of_int (now - lastHoverTime s) / real_of_int DWELL_TIME_MS
        \<le> real_of_int (now' - lastHoverTime s) / real_of_int DWELL_TIME_MS"
      using m by (simp add: DWELL_TIME_MS_def)
    ultimately show "dwellProgress ?s1 \<le> dwellProgress (snd (checkGaze w now' ?s1))"
      using s1(4) by (simp del: of_int_diff add: min_le_iff_disj)
  }
  {
    assume f: "dwellFires wd now s \<and> dwellRun wd evs (snd (checkGaze w now s))"
    let ?s1 = "snd (checkGaze w now s)"
    from f dw(1) have s1: "hoveredWord ?s1 = Some wd" "lastHoverTime ?s1 \<le> 0"
      "dwellProgress ?s1 = 0" by simp_all
    from f have busy: "lookupBusy ?s1"
      using checkGaze_fire_busy [OF assms hov pos, of now] by simp
    from f have "dwellRun wd evs ?s1" by simp
    from run_spent [OF s1(1,2) this] s1(3) busy
    show "lookups (fst (run evs ?s1)) = []" and "dwellProgress (snd (run evs ?s1)) = 0"
      by (simp_all add: dwellCells_def)
  }
next
  assume "hoveredWord s \<noteq> Some wd"
  from checkGaze_enter [OF assms this, of now]
  show "lookups (fst (checkGaze w now s)) = []"
    and "dwellProgress (snd (checkGaze w now s)) = 0"
    and "hoveredWord (snd (checkGaze w now s)) = Some wd"
    and "lastHoverTime (snd (checkGaze w now s)) = now"
    by simp_all
next
  assume "hoveredWord s = Some wd \<and> showsNoWord w' (mode (playerConfig s))"
  then have "showsNoWord w' (mode (playerConfig s))" "hoveredWord s = Some wd" by simp_all
  from checkGaze_leave [OF this assms(3), of now]
  show "lookups (fst (checkGaze w' now s)) = []"
    and "dwellProgress (snd (checkGaze w' now s)) = 0"
    and "hoveredWord (snd (checkGaze w' now s)) = None"
    by simp_all
next
  assume "dwellRun wd evs s"
  then show "length (gazeLookups evs s) \<le> 1" by (rule run_dwell_once)
qed

text \<open>The theorem at the session that hovers \<open>cat\<close> since time \<open>1000\<close>: a tick at \<open>1600\<close>
  shows half progress, a tick at \<open>1900\<close> more, a tick at \<open>2200\<close> fires once and nothing
  fires in the rest of the dwell, which has a click on the word and a key press in it;
  and at the session start, where the tick enters the word.\<close>

theorem C3_dwell_witness:
  "probe catWindow (mode (playerConfig hoverCatSession)) = Some (wordElement ''cat'' ''the cat sat'') \<and>
   closestWord (wordElement ''cat'' ''the cat sat'') = Some (''cat'', Some ''the cat sat'') \<and>
   hoveredWord hoverCatSession = Some ''cat'' \<and> lastHoverTime hoverCatSession = 1000 \<and>
   \<not> dwellFires ''cat'' 1600 hoverCatSession \<and>
   lookups (fst (checkGaze catWindow 1600 hoverCatSession)) = [] \<and>
   dwellProgress (snd (checkGaze catWindow 1600 hoverCatSession)) = 1 / 2 \<and>
   dwellProgress (snd (checkGaze catWindow 1600 hoverCatSession))
     \<le> dwellProgress (snd (checkGaze catWindow 1900
                               (snd (checkGaze catWindow 1600 hoverCatSession)))) \<and>
   showsNoWord plainWindow (mode (playerConfig hoverCatSession)) \<and>
   dwellProgress (snd (checkGaze plainWindow 1600 hoverCatSession)) = 0 \<and>
   hoveredWord (snd (checkGaze plainWindow 1600 hoverCatSession)) = None \<and>
   dwellRun ''cat'' catDwell hoverCatSession \<and>
   length (gazeLookups catDwell hoverCatSession) \<le> 1 \<and>
   dwellFires ''cat'' 2200 hoverCatSession \<and>
   lookups (fst (checkGaze catWindow 2200 hoverCatSession)) = [(''cat'', ''the cat sat'')] \<and>
   dwellProgress (snd (checkGaze catWindow 2200 hoverCatSession)) = 0 \<and>
   dwellRun ''cat'' (tl catDwell) (snd (checkGaze catWindow 2200 hoverCatSession)) \<and>
   lookups (fst (run (tl catDwell) (snd (checkGaze catWindow 2200 hoverCatSession)))) = [] \<and>
   dwellProgress (snd (run (tl catDwell) (snd (checkGaze catWindow 2200 hoverCatSession)))) = 0 \<and>
   probe catWindow (mode (playerConfig lookupSession)) = Some (wordElement ''cat'' ''the cat sat'') \<and>
   hoveredWord lookupSession = None \<and>
   hoveredWord (snd (checkGaze catWindow 1000 lookupSession)) = Some ''cat'' \<and>
   lastHoverTime (snd (checkGaze catWindow 1000 lookupSession)) = 1000 \<and>
   dwellProgress (snd (checkGaze catWindow 1000 lookupSession)) = 0"
proof -
  have p: "probe catWindow (mode (playerConfig hoverCatSession))
      = Some (wordElement ''cat'' ''the cat sat'')"
    and cw: "closestWord (wordElement ''cat'' ''the cat sat'') = Some (''cat'', Some ''the cat sat'')"
    and ne: "''cat'' \<noteq> []"
    and p0: "probe catWindow (mode (playerConfig lookupSession))
      = Some (wordElement ''cat'' ''the cat sat'')"
    by code_simp+
  have hov: "hoveredWord hoverCatSession = Some ''cat''"
    and last: "lastHoverTime hoverCatSession = 1000"
    and hold: "\<not> dwellFires ''cat'' 1600 hoverCatSession"
      "\<not> dwellFires ''cat'' 1900 (snd (checkGaze catWindow 1600 hoverCatSession))"
    and fire: "dwellFires ''cat'' 2200 hoverCatSession"
    and leave: "showsNoWord plainWindow (mode (playerConfig hoverCatSession))"
    and hov0: "hoveredWord lookupSession = None"
    by code_simp+
  have evs: "dwellRun ''cat'' catDwell hoverCatSession"
    "dwellRun ''cat'' (tl catDwell) (snd (checkGaze catWindow 2200 hoverCatSession))"
    by code_simp+
  have half: "clamp01 (real_of_int (1600 - 1000) / 1200) = 1 / 2"
    by (simp add: clamp01_def)
  from C3_dwell [OF p cw ne, of 1600 1900 catDwell plainWindow] hov last hold leave evs(1) half
  have a: "lookups (fst (checkGaze catWindow 1600 hoverCatSession)) = []"
    "dwellProgress (snd (checkGaze catWindow 1600 hoverCatSession)) = 1 / 2"
    "dwellProgress (snd (checkGaze catWindow 1600 hoverCatSession))
     \<le> dwellProgress (snd (checkGaze catWindow 1900
                               (snd (checkGaze catWindow 1600 hoverCatSession))))"
    "dwellProgress (snd (checkGaze plainWindow 1600 hoverCatSession)) = 0"
    "hoveredWord (snd (checkGaze plainWindow 1600 hoverCatSession)) = None"
    "length (gazeLookups catDwell hoverCatSession) \<le> 1"
    by simp_all
  from C3_dwell [OF p cw ne, of 2200 2200 "tl catDwell" plainWindow] hov last fire evs(2)
  have b: "lookups (fst (checkGaze catWindow 2200 hoverCatSession)) = [(''cat'', ''the cat sat'')]"
    "dwellProgress (snd (checkGaze catWindow 2200 hoverCatSession)) = 0"
    "lookups (fst (run (tl catDwell) (snd (checkGaze catWindow 2200 hoverCatSession)))) = []"
    "dwellProgress (snd (run (tl catDwell) (snd (checkGaze catWindow 2200 hoverCatSession)))) = 0"
    by (simp_all add: orEmpty_def)
  from C3_dwell [OF p0 cw ne, of 1000 1000 "[]" plainWindow] hov0
  have c: "hoveredWord (snd (checkGaze catWindow 1000 lookupSession)) = Some ''cat''"
    "lastHoverTime (snd (checkGaze catWindow 1000 lookupSession)) = 1000"
    "dwellProgress (snd (checkGaze catWindow 1000 lookupSession)) = 0"
    by simp_all
  from p cw p0 hov last hold(1) fire leave hov0 evs a b c show ?thesis by simp
qed

text \<open>
  The claim as stated fails on "exactly one activation": while the definition of \<open>cat\<close>
  is shown, a new dwell on \<open>cat\<close> that starts at \<open>4000\<close> reaches progress \<open>1\<close> at \<open>5200\<close>
  and stays there, and no tick of it fires a lookup.
\<close>

theorem C3_counterexample:
  "hoveredWord catShownSession = Some ''cat'' \<and> lastHoverTime catShownSession = 4000 \<and>
   dwellProgress catShownSession = 0 \<and>
   dwellProgress (snd (gazeTick catWindow 5200 catShownSession)) = 1 \<and>
   fst (run [EvGazeTick catWindow 5200, EvGazeTick catWindow 6400, EvGazeTick catWindow 7600]
            catShownSession) = [] \<and>
   dwellProgress (snd (run [EvGazeTick catWindow 5200, EvGazeTick catWindow 6400,
                            EvGazeTick catWindow 7600] catShownSession)) = 1"
  by code_simp

text \<open>Closing the definition ends the dwell and starts a new one although the probe point
  never leaves the word: with the close at \<open>3000\<close> in between, the ticks on \<open>cat\<close> at
  \<open>2200\<close> and at \<open>4300\<close> both fire the lookup.\<close>

lemma close_rearms_dwell:
  "\<not> dwellRun ''cat'' closedCatDwell hoverCatSession \<and>
   gazeLookups closedCatDwell hoverCatSession
     = [(''cat'', ''the cat sat''), (''cat'', ''the cat sat'')]"
  by code_simp

section \<open>Calls made by the click and gaze handlers\<close>

lemma clickEmpty_acts:
  "length (fst (clickEmpty s)) \<le> Suc 0" "list_all (\<lambda>a. a = TogglePlay) (fst (clickEmpty s))"
  by (simp_all add: clickEmpty_def)

lemma clickAction_acts:
  "length (fst (clickAction a s)) \<le> Suc 0" "list_all isActionAct (fst (clickAction a s))"
  by (simp_all add: clickAction_def isActionAct_def)

lemma clickNote_acts:
  "length (fst (clickNote n s)) \<le> Suc 0" "list_all isNoteAct (fst (clickNote n s))"
  by (simp_all add: clickNote_def isNoteAct_def)


lemma clickWord_lookup:
  "WordLookup wd sn \<in> set (fst (clickWord a b t s)) \<Longrightarrow>
   \<not> isTranslating s \<and> wordDefinition s = None \<and> \<not> isGameMode (playerConfig s)"
  by (simp add: clickWord_def split: if_splits)



lemma clickElement_lookup:
  assumes "WordLookup wd sn \<in> set (fst (clickElement el t s))"
  shows "\<not> isTranslating s \<and> wordDefinition s = None \<and> \<not> isGameMode (playerConfig s)"
proof -
  have a: "WordLookup wd sn \<notin> set (fst (clickAction x s))" for x
    using clickAction_acts(2) [of x s] by (auto simp: list_all_iff isActionAct_def)
  have n: "WordLookup wd sn \<notin> set (fst (clickNote x s))" for x
    using clickNote_acts(2) [of x s] by (auto simp: list_all_iff isNoteAct_def)
  have e: "WordLookup wd sn \<notin> set (fst (clickEmpty s))"
    using clickEmpty_acts(2) [of s] by (auto simp: list_all_iff)
  from assms a n e show ?thesis
    by (auto simp: clickElement_def split: option.splits dest: clickWord_lookup)
qed

lemma handleScreenClick_lookup:
  assumes "WordLookup wd sn \<in> set (fst (handleScreenClick w t s))"
  shows "\<not> isTranslating s \<and> wordDefinition s = None \<and> \<not> isGameMode (playerConfig s)"
proof -
  have e: "WordLookup wd sn \<notin> set (fst (clickEmpty s))"
    using clickEmpty_acts(2) [of s] by (auto simp: list_all_iff)
  from assms e obtain el :: HitElement
    where "WordLookup wd sn \<in> set (fst (clickElement el t s))"
    by (auto simp: handleScreenClick_def split: if_splits option.splits)
  then show ?thesis by (rule clickElement_lookup)
qed

lemma gazeNote_acts:
  "length (fst (gazeNote el s)) \<le> Suc 0" "list_all isNoteAct (fst (gazeNote el s))"
  "\<not> isGameMode (playerConfig s) \<or> closestGameNote el = None \<Longrightarrow> fst (gazeNote el s) = []"
  by (auto simp: gazeNote_def isNoteAct_def split: option.splits)

lemma gazeDwell_acts:
  "length (fst (gazeDwell a b t s)) \<le> Suc 0" "list_all isLookupAct (fst (gazeDwell a b t s))"
  "WordLookup wd sn \<in> set (fst (gazeDwell a b t s)) \<Longrightarrow>
     wd = a \<and> \<not> isTranslating s
     \<and> (wordDefinition s = None \<or> word (the (wordDefinition s)) \<noteq> a)"
  by (simp_all add: gazeDwell_def Let_def isLookupAct_def split: if_splits)


lemma gazeWord_lookup:
  "WordLookup wd sn \<in> set (fst (gazeWord el t s)) \<Longrightarrow>
   \<not> isTranslating s \<and> (wordDefinition s = None \<or> word (the (wordDefinition s)) \<noteq> wd)"
  using gazeDwell_acts(3)
  by (fastforce simp: gazeWord_def gazeWordHit_def gazeWordMiss_def
      split: option.splits if_splits)

lemma checkGaze_lookup:
  assumes "WordLookup wd sn \<in> set (fst (checkGaze w t s))"
  shows "\<not> isTranslating s \<and> (wordDefinition s = None \<or> word (the (wordDefinition s)) \<noteq> wd)"
proof (cases "probe w (mode (playerConfig s))")
  case None
  with assms show ?thesis by (simp add: checkGaze_def)
next
  case (Some el)
  have "WordLookup wd sn \<notin> set (fst (gazeNote el s))"
    using gazeNote_acts(2) [of el s] by (auto simp: list_all_iff isNoteAct_def)
  with assms Some have "WordLookup wd sn \<in> set (fst (gazeWord el t (snd (gazeNote el s))))"
    by (simp add: checkGaze_def)
  from gazeWord_lookup [OF this] show ?thesis by simp
qed

text \<open>
  C8 (as amended). A lookup fired by a click fires only while no lookup is pending, no
  definition is shown and rhythm-game mode is off. A lookup fired by a dwell fires only
  while no lookup is pending and no definition of the dwelt word itself is shown.
\<close>

theorem C8_lookup_guards:
  "(WordLookup wd sn \<in> set (fst (handleScreenClick w now s)) \<longrightarrow>
      \<not> isTranslating s \<and> wordDefinition s = None \<and> \<not> isGameMode (playerConfig s)) \<and>
   (WordLookup wd sn \<in> set (fst (checkGaze w now s)) \<longrightarrow>
      \<not> isTranslating s \<and>
      (wordDefinition s = None \<or> word (the (wordDefinition s)) \<noteq> wd))"
  using handleScreenClick_lookup [of wd sn w now s] checkGaze_lookup [of wd sn w now s]
  by blast

text \<open>The theorem at a click on \<open>cat\<close> at the session start and at the dwell on \<open>cat\<close>
  that completes at \<open>2200\<close>.\<close>

theorem C8_lookup_guards_witness:
  "WordLookup ''cat'' ''the cat sat'' \<in> set (fst (handleScreenClick catWindow 1000 lookupSession)) \<and>
   \<not> isTranslating lookupSession \<and> wordDefinition lookupSession = None \<and>
   \<not> isGameMode (playerConfig lookupSession) \<and>
   WordLookup ''cat'' ''the cat sat'' \<in> set (fst (checkGaze catWindow 2200 hoverCatSession)) \<and>
   \<not> isTranslating hoverCatSession"
proof -
  have click: "WordLookup ''cat'' ''the cat sat''
      \<in> set (fst (handleScreenClick catWindow 1000 lookupSession))"
    and gaze: "WordLookup ''cat'' ''the cat sat''
      \<in> set (fst (checkGaze catWindow 2200 hoverCatSession))"
    by code_simp+
  from C8_lookup_guards [of "''cat''" "''the cat sat''" catWindow 1000 lookupSession] click
  have "\<not> isTranslating lookupSession" "wordDefinition lookupSession = None"
    "\<not> isGameMode (playerConfig lookupSession)"
    by simp_all
  moreover from C8_lookup_guards [of "''cat''" "''the cat sat''" catWindow 2200 hoverCatSession]
    gaze
  have "\<not> isTranslating hoverCatSession" by simp
  ultimately show ?thesis using click gaze by simp
qed

text \<open>
  The claim as stated fails for a dwell while a definition is shown: with the definition
  of \<open>dog\<close> on display, the dwell on \<open>cat\<close> that completes at \<open>4200\<close> fires a lookup.
\<close>

theorem C8_counterexample:
  "wordDefinition dogShownSession = Some dogDefinition \<and>
   \<not> isTranslating dogShownSession \<and>
   fst (gazeTick catWindow 4200 dogShownSession) = [WordLookup ''cat'' ''the cat sat'']"
  by code_simp

text \<open>The dwell path has no test of rhythm-game mode: in the game session the dwell on
  \<open>cat\<close> that completes at \<open>2200\<close> fires a lookup.\<close>

lemma dwell_lookup_in_game_mode:
  "isGameMode (playerConfig gameHoverCatSession) \<and>
   fst (gazeTick catWindow 2200 gameHoverCatSession) = [WordLookup ''cat'' ''the cat sat'']"
  by code_simp




end
